theory Spec2Isabelle
  imports Main "HOL-Library.Sublist"
begin

section \<open>Values, errors and the outside world\<close>

text \<open>
  A thrown JavaScript error: its \<^verbatim>\<open>message\<close> and, for the errors of the GitHub
  client, its HTTP \<^verbatim>\<open>status\<close> (absent on a plain \<^verbatim>\<open>new Error(msg)\<close>). A function
  that can throw returns \<open>exn + 'a\<close>, \<open>Inl\<close> being the throw (for an \<^verbatim>\<open>async\<close>
  function: the rejection of its promise).
\<close>

datatype exn = Exn (exn_message: string) (exn_status: "int option")

definition newError :: "string \<Rightarrow> exn" where
  "newError msg = Exn msg None"

text \<open>Untyped JavaScript values (\<^verbatim>\<open>any\<close>), as far as the code looks into them; numbers
  are the integer-valued ones.\<close>

datatype js_value =
    JUndefined
  | JNull
  | JBool bool
  | JNum int
  | JStr string
  | JArr "js_value list"
  | JObj "(string \<times> js_value) list"


text \<open>An optional string parameter (\<^verbatim>\<open>x?: string\<close>) tested as a condition,
  \<^verbatim>\<open>if (x)\<close>: absent and empty both count as false.\<close>

definition given :: "string option \<Rightarrow> bool" where
  "given x = (case x of None \<Rightarrow> False | Some s \<Rightarrow> s \<noteq> [])"

text \<open>Number to string as a template literal prints it, for integers.\<close>

fun showNat :: "nat \<Rightarrow> string" where
  "showNat n = (if n < 10 then [''0123456789'' ! n] else showNat (n div 10) @ [''0123456789'' ! (n mod 10)])"

declare showNat.simps [simp del]

definition showInt :: "int \<Rightarrow> string" where
  "showInt i = (if i < 0 then CHR ''-'' # showNat (nat (- i)) else showNat (nat i))"

text \<open>\<^verbatim>\<open>Array.prototype.join\<close> and \<^verbatim>\<open>String.prototype.includes\<close>.\<close>

fun joinWith :: "string \<Rightarrow> string list \<Rightarrow> string" where
  "joinWith sep [] = []"
| "joinWith sep [x] = x"
| "joinWith sep (x # y # ys) = x @ sep @ joinWith sep (y # ys)"

fun strIncludes :: "string \<Rightarrow> string \<Rightarrow> bool" where
  "strIncludes [] sub = (sub = [])"
| "strIncludes (c # cs) sub = (prefix sub (c # cs) \<or> strIncludes cs sub)"

text \<open>A directory listing with file types (\<^verbatim>\<open>readdir(dir, {withFileTypes: true})\<close>): a
  regular file, a directory, or anything else (a link, a device), each with its name. A
  directory entry carries what \<^verbatim>\<open>readdir\<close> gives for that directory in turn: an error,
  or its own listing.\<close>

datatype dirent = FileEntry string | DirEntry string "exn + dirent list" | OtherEntry string

text \<open>String conversion as a template literal does it (\<^verbatim>\<open>`${v}`\<close>): an array prints
  its elements joined by commas, \<^verbatim>\<open>null\<close> and \<^verbatim>\<open>undefined\<close> elements as nothing.\<close>

fun jsToString :: "js_value \<Rightarrow> string" where
  "jsToString JUndefined = ''undefined''"
| "jsToString JNull = ''null''"
| "jsToString (JBool b) = (if b then ''true'' else ''false'')"
| "jsToString (JNum n) = showInt n"
| "jsToString (JStr s) = s"
| "jsToString (JArr xs) =
     joinWith '','' (map (\<lambda>x. if x = JNull \<or> x = JUndefined then [] else jsToString x) xs)"
| "jsToString (JObj kvs) = ''[object Object]''"

text \<open>The error object \<^verbatim>\<open>child_process.exec\<close> hands to its callback. Its
  \<^verbatim>\<open>code\<close> is declared \<^verbatim>\<open>code?: number\<close>, but at run time it is whatever Node put
  there: the exit code of the process (a number), the name of a system error when the
  process could not be started (a string such as \<^verbatim>\<open>ENOENT\<close>), \<^verbatim>\<open>null\<close> when a signal
  ended the process, or nothing at all (\<open>JUndefined\<close>).\<close>

record ExecException =
  err_code :: js_value
  err_message :: string

text \<open>What \<^verbatim>\<open>simple-git\<close>'s pull resolves to, as far as the code reads it.\<close>

record PullSummary =
  changes :: int
  insertions :: int
  deletions :: int

record PullResult =
  summary :: PullSummary
  files :: "string list"

text \<open>The parameters of one \<^verbatim>\<open>octokit.rest.repos.listForOrg\<close> request.\<close>

record ListForOrgParams =
  p_org :: string
  p_type :: string
  p_sort :: string
  p_direction :: string
  p_per_page :: int
  p_page :: int

text \<open>
  Everything the code calls but does not define is a field of the environment: Node's
  \<^verbatim>\<open>path\<close> module (its \<^verbatim>\<open>resolve\<close> already knows the working directory), the file
  system, \<^verbatim>\<open>simple-git\<close>, \<^verbatim>\<open>JSON\<close>, the clock, the control-script runner,
  \<^verbatim>\<open>child_process.exec\<close> and the GitHub client.
  \<open>'w\<close> is the state of the outside world (disk, remote, running project): a call that
  can change it returns the new state, a call that only reads takes the state.
  \<open>defaultDirectory\<close> is the handler's \<^verbatim>\<open>_defaultDirectory\<close>, set once by its
  constructor.

  \<^verbatim>\<open>exec\<close> has two outcomes. It validates its arguments before it starts anything
  and throws on the spot when they are refused (an empty command, a command with a NUL
  byte): \<open>Inl\<close>. Otherwise it starts the command and, when the process has ended, calls
  back with an error object or \<^verbatim>\<open>null\<close>, the standard output and the standard error:
  \<open>Inr\<close> of the three arguments of that call. (A command that never ends is never
  called back for, and the promise of \<^verbatim>\<open>execute\<close> stays pending: the model covers the
  runs in which \<^verbatim>\<open>exec\<close> throws or calls back.)
\<close>

record 'w env =
  path_isAbsolute :: "string \<Rightarrow> bool"
  path_resolve :: "string list \<Rightarrow> string"
  path_join :: "string list \<Rightarrow> string"
  path_basename :: "string \<Rightarrow> string"
  path_dirname :: "string \<Rightarrow> string"
  path_normalize :: "string \<Rightarrow> string"
  fs_existsSync :: "'w \<Rightarrow> string \<Rightarrow> bool"
  fs_isDirectory :: "'w \<Rightarrow> string \<Rightarrow> bool"
  fs_readFileSync :: "'w \<Rightarrow> string \<Rightarrow> exn + string"
  fs_readdir :: "'w \<Rightarrow> string \<Rightarrow> exn + dirent list"
  fs_mkdirSync :: "string \<Rightarrow> 'w \<Rightarrow> (exn + unit) \<times> 'w"
  git_pull :: "string \<Rightarrow> 'w \<Rightarrow> (exn + PullResult) \<times> 'w"
  git_clone :: "string \<Rightarrow> string \<Rightarrow> string \<Rightarrow> string list \<Rightarrow> 'w \<Rightarrow> (exn + unit) \<times> 'w"
  JSON_parse :: "string \<Rightarrow> exn + js_value"
  JSON_stringify :: "js_value \<Rightarrow> nat \<Rightarrow> string"
  Date_now :: "'w \<Rightarrow> nat"
  ctrl_start :: "string \<Rightarrow> string list \<Rightarrow> 'w \<Rightarrow> (exn + js_value) \<times> 'w"
  child_exec :: "string \<Rightarrow> string option \<Rightarrow> 'w
                   \<Rightarrow> (exn + ExecException option \<times> string \<times> string) \<times> 'w"
  octokit_listForOrg :: "ListForOrgParams \<Rightarrow> 'w \<Rightarrow> (exn + js_value list) \<times> 'w"
  defaultDirectory :: string

text \<open>
  The calls a function makes to the outside world, in the order it makes them. Every
  effectful function of the model returns this list, its result and the new state.
  Of the console output only the line that reports a pull's summary is kept; the fixed
  progress messages are left out.
\<close>

datatype call =
    CtrlStart string "string list"
  | Exec string "string option"
  | GitPull string
  | GitClone string string string "string list"
  | MkdirRecursive string
  | ConsoleLog string


section \<open>CommandExecutor and CommandResult\<close>

text \<open>\<^verbatim>\<open>exitCode\<close> is declared a number; the value stored is the error's \<^verbatim>\<open>code\<close>
  as it comes, so it is kept untyped.\<close>

record CommandResult =
  command :: string
  workingDirectory :: string
  exitCode :: js_value
  message :: string
  stderr :: string
  stdout :: string

text \<open>The callback \<^verbatim>\<open>execute\<close> passes to \<^verbatim>\<open>exec\<close>: it builds the result from the
  error object (if any) and the two outputs, and resolves the promise with it.
  \<^verbatim>\<open>err?.code !== undefined ? err.code : 0\<close> keeps every code but \<^verbatim>\<open>undefined\<close>,
  \<^verbatim>\<open>null\<close> included.\<close>

definition execCallback ::
  "string \<Rightarrow> string option \<Rightarrow> ExecException option \<Rightarrow> string \<Rightarrow> string \<Rightarrow> CommandResult" where
  "execCallback cmd cwd err out serr =
     \<lparr> command = cmd,
       workingDirectory = (case cwd of None \<Rightarrow> ''Not specified (using current directory)'' | Some d \<Rightarrow> d),
       exitCode = (case err of None \<Rightarrow> JNum 0
                   | Some e \<Rightarrow> if err_code e \<noteq> JUndefined then err_code e else JNum 0),
       message = (case err of None \<Rightarrow> [] | Some e \<Rightarrow> err_message e),
       stderr = serr,
       stdout = out \<rparr>"

text \<open>\<^verbatim>\<open>execute\<close> calls \<^verbatim>\<open>exec\<close> inside the executor of \<^verbatim>\<open>new Promise\<close>, with no
  \<^verbatim>\<open>try\<close> around it and no use of \<^verbatim>\<open>reject\<close>: a throw of \<^verbatim>\<open>exec\<close> itself
  leaves the executor and rejects the promise with that error (\<open>Inl\<close>); a call of the
  callback resolves it (\<open>Inr\<close>).\<close>

definition execute ::
  "'w env \<Rightarrow> string \<Rightarrow> string option \<Rightarrow> 'w \<Rightarrow> call list \<times> (exn + CommandResult) \<times> 'w" where
  "execute E cmd cwd w =
     (case child_exec E cmd cwd w of
        (Inl e, w') \<Rightarrow> ([Exec cmd cwd], Inl e, w')
      | (Inr (err, out, serr), w') \<Rightarrow> ([Exec cmd cwd], Inr (execCallback cmd cwd err out serr), w'))"


section \<open>NodeInstaller\<close>

text \<open>
  \<^verbatim>\<open>findPackageDirs\<close> lists the directory, pushes it when the listing has a regular
  file named \<^verbatim>\<open>package.json\<close>, then descends into every sub-directory but
  \<^verbatim>\<open>node_modules\<close>, in listing order, all calls sharing the one \<^verbatim>\<open>found\<close> array; a
  listing that fails rejects the whole search. \<open>walk\<close> is one call on a directory that
  has been listed, \<open>walkInto\<close> its loop over the entries. A sub-directory is there when
  the walk reaches it (it has just been listed), so only the first call can find its
  directory missing.
\<close>

fun walk :: "(string list \<Rightarrow> string) \<Rightarrow> string \<Rightarrow> dirent list \<Rightarrow> exn + string list"
and walkInto :: "(string list \<Rightarrow> string) \<Rightarrow> string \<Rightarrow> dirent list \<Rightarrow> exn + string list" where
  "walk pjoin dir entries =
     (case walkInto pjoin dir entries of
        Inl e \<Rightarrow> Inl e
      | Inr below \<Rightarrow>
          Inr ((if list_ex (\<lambda>e. e = FileEntry ''package.json'') entries then [dir] else []) @ below))"
| "walkInto pjoin dir [] = Inr []"
| "walkInto pjoin dir (FileEntry n # rest) = walkInto pjoin dir rest"
| "walkInto pjoin dir (OtherEntry n # rest) = walkInto pjoin dir rest"
| "walkInto pjoin dir (DirEntry n listing # rest) =
     (if n \<noteq> ''node_modules'' then
        (case listing of
           Inl e \<Rightarrow> Inl e
         | Inr sub \<Rightarrow>
             (case walk pjoin (pjoin [dir, n]) sub of
                Inl e \<Rightarrow> Inl e
              | Inr found \<Rightarrow>
                  (case walkInto pjoin dir rest of
                     Inl e \<Rightarrow> Inl e
                   | Inr others \<Rightarrow> Inr (found @ others))))
      else walkInto pjoin dir rest)"

definition findPackageDirs :: "'w env \<Rightarrow> 'w \<Rightarrow> string \<Rightarrow> exn + string list" where
  "findPackageDirs E w dir =
     (if \<not> fs_existsSync E w dir then Inr []
      else (case fs_readdir E w dir of
              Inl e \<Rightarrow> Inl e
            | Inr entries \<Rightarrow> walk (path_join E) dir entries))"

text \<open>\<^verbatim>\<open>runCommand\<close> awaits \<^verbatim>\<open>execute\<close> (a rejection passes through) and throws
  when \<^verbatim>\<open>result.exitCode !== 0\<close>, a strict comparison: every value but the number 0
  is a failure, a string or \<^verbatim>\<open>null\<close> too.\<close>

definition runCommand ::
  "'w env \<Rightarrow> string \<Rightarrow> string list \<Rightarrow> string \<Rightarrow> 'w \<Rightarrow> call list \<times> (exn + unit) \<times> 'w" where
  "runCommand E cmd args cwd w =
     (case execute E (joinWith '' '' (cmd # args)) (Some cwd) w of
        (cs, Inl e, w') \<Rightarrow> (cs, Inl e, w')
      | (cs, Inr result, w') \<Rightarrow>
          if exitCode result \<noteq> JNum 0
          then (cs, Inl (newError (cmd @ '' '' @ joinWith '' '' args @ '' failed with code ''
                          @ jsToString (exitCode result) @ [CHR 0x0A] @ stderr result)), w')
          else (cs, Inr (), w'))"

text \<open>The loop of \<^verbatim>\<open>installAndBuild\<close> over the directories found: install, then build,
  then the next directory. A throwing \<^verbatim>\<open>runCommand\<close> is not caught, so it ends the loop.\<close>

fun installDirs :: "'w env \<Rightarrow> string list \<Rightarrow> 'w \<Rightarrow> call list \<times> (exn + unit) \<times> 'w" where
  "installDirs E [] w = ([], Inr (), w)"
| "installDirs E (dir # dirs) w =
     (case runCommand E ''npm'' [''install''] dir w of
        (c1, Inl e, w1) \<Rightarrow> (c1, Inl e, w1)
      | (c1, Inr _, w1) \<Rightarrow>
          (case runCommand E ''npx'' [''tsc''] dir w1 of
             (c2, Inl e, w2) \<Rightarrow> (c1 @ c2, Inl e, w2)
           | (c2, Inr _, w2) \<Rightarrow>
               (case installDirs E dirs w2 of (cs, r, w3) \<Rightarrow> (c1 @ c2 @ cs, r, w3))))"

definition installAndBuild :: "'w env \<Rightarrow> string \<Rightarrow> 'w \<Rightarrow> call list \<times> (exn + unit) \<times> 'w" where
  "installAndBuild E projDir w =
     (case findPackageDirs E w (projDir @ ''/javascript'') of
        Inl e \<Rightarrow> ([], Inl e, w)
      | Inr dirs \<Rightarrow> installDirs E dirs w)"


text \<open>The two commands of one directory, and the commands of a list of directories, in
  the order the loop issues them.\<close>

definition dirCommands :: "string \<Rightarrow> call list" where
  "dirCommands dir = [Exec ''npm install'' (Some dir), Exec ''npx tsc'' (Some dir)]"

definition allCommands :: "string list \<Rightarrow> call list" where
  "allCommands dirs = concat (map dirCommands dirs)"

text \<open>For stating when a command fails: the command, run in the directory from the
  given state of the world, comes back with the number 0 as its exit code (\<^verbatim>\<open>exec\<close>
  did not throw, and the result's \<^verbatim>\<open>exitCode\<close> is 0).\<close>

definition exitsZero :: "'w env \<Rightarrow> string \<Rightarrow> string \<Rightarrow> 'w \<Rightarrow> bool" where
  "exitsZero E cmd cwd w =
     (case fst (snd (execute E cmd (Some cwd) w)) of
        Inl e \<Rightarrow> False
      | Inr result \<Rightarrow> exitCode result = JNum 0)"


section \<open>PathResolver: project and installation path\<close>

text \<open>
  The manager as the two functions use it: the outcome of the call
  \<^verbatim>\<open>winccoa.getPaths()\<close>, which either throws or returns a value. The declared return
  type is \<^verbatim>\<open>string[]\<close>, but the functions test the value with \<^verbatim>\<open>Array.isArray\<close>
  themselves, so it is kept untyped. The manager itself may be missing
  (\<^verbatim>\<open>null\<close>/\<^verbatim>\<open>undefined\<close>).
\<close>

record WinccoaManager =
  getPaths :: "exn + js_value"

text \<open>\<^verbatim>\<open>path.normalize\<close> on an untyped value: Node validates the argument and throws a
  \<^verbatim>\<open>TypeError\<close> for anything but a string.\<close>

definition normalizeArg :: "'w env \<Rightarrow> js_value \<Rightarrow> exn + string" where
  "normalizeArg E v =
     (case v of
        JStr s \<Rightarrow> Inr (path_normalize E s)
      | _ \<Rightarrow> Inl (newError ''The path argument must be of type string''))"

text \<open>Neither function has a \<^verbatim>\<open>try\<close>: a throw of \<^verbatim>\<open>getPaths()\<close> or of
  \<^verbatim>\<open>path.normalize\<close> leaves the function (\<open>Inl\<close>).\<close>

definition getProjectPath :: "'w env \<Rightarrow> WinccoaManager option \<Rightarrow> exn + string" where
  "getProjectPath E winccoa =
     (case winccoa of
        None \<Rightarrow> Inr []
      | Some m \<Rightarrow>
          (case getPaths m of
             Inl e \<Rightarrow> Inl e
           | Inr (JArr paths) \<Rightarrow>
               if length paths < 2 then Inr [] else normalizeArg E (paths ! 0)
           | Inr _ \<Rightarrow> Inr []))"

definition getInstallationPath :: "'w env \<Rightarrow> WinccoaManager option \<Rightarrow> exn + string" where
  "getInstallationPath E winccoa =
     (case winccoa of
        None \<Rightarrow> Inr []
      | Some m \<Rightarrow>
          (case getPaths m of
             Inl e \<Rightarrow> Inl e
           | Inr (JArr paths) \<Rightarrow>
               if length paths < 2 then Inr [] else normalizeArg E (paths ! (length paths - 1))
           | Inr _ \<Rightarrow> Inr []))"


section \<open>AddOnHandler: repository name and target path\<close>

text \<open>
  \<^verbatim>\<open>url.match(/\/([^\/]+?)(?:\.git)?$/)\<close>, as the backtracking matcher runs it.
  \<open>tailMatches\<close> is the rest of the pattern after the group, \<^verbatim>\<open>(?:\.git)?$\<close>: the
  input ends here, with or without one \<^verbatim>\<open>.git\<close>. \<open>lazyGroup\<close> is the lazy group
  \<^verbatim>\<open>([^\/]+?)\<close>: it holds at least one character, tries the rest of the pattern after
  every character it has, and takes one more character (never a slash) only when that
  fails. \<open>matchAt\<close> anchors the pattern at the head of the input, \<open>urlMatch\<close> tries every
  start from the left and returns group 1 of the first match.
\<close>

definition tailMatches :: "string \<Rightarrow> bool" where
  "tailMatches s = (s = ''.git'' \<or> s = [])"

fun lazyGroup :: "string \<Rightarrow> string \<Rightarrow> string option" where
  "lazyGroup g [] = (if tailMatches [] then Some g else None)"
| "lazyGroup g (c # cs) =
     (if tailMatches (c # cs) then Some g
      else if c = CHR ''/'' then None
      else lazyGroup (g @ [c]) cs)"

fun matchAt :: "string \<Rightarrow> string option" where
  "matchAt (c # d # cs) = (if c = CHR ''/'' \<and> d \<noteq> CHR ''/'' then lazyGroup [d] cs else None)"
| "matchAt _ = None"

fun urlMatch :: "string \<Rightarrow> string option" where
  "urlMatch [] = None"
| "urlMatch (c # cs) = (case matchAt (c # cs) of Some g \<Rightarrow> Some g | None \<Rightarrow> urlMatch cs)"

definition fallbackName :: "'w env \<Rightarrow> 'w \<Rightarrow> string" where
  "fallbackName E w = ''repo-'' @ showNat (Date_now E w)"

definition extractRepoNameFromUrl :: "'w env \<Rightarrow> 'w \<Rightarrow> string \<Rightarrow> string" where
  "extractRepoNameFromUrl E w url =
     (case urlMatch url of
        Some g \<Rightarrow> if g \<noteq> [] then g else fallbackName E w
      | None \<Rightarrow> fallbackName E w)"

text \<open>
  The first part of \<^verbatim>\<open>cloneRepository\<close>: full path and repository name. The source
  writes the same three-way decision twice, once on the absolute \<^verbatim>\<open>targetDirectory\<close>
  and once on \<^verbatim>\<open>path.resolve(targetDirectory)\<close>; \<open>resolveAt\<close> is that decision on
  either path.
\<close>

definition resolveAt :: "'w env \<Rightarrow> 'w \<Rightarrow> string \<Rightarrow> string \<Rightarrow> string \<times> string" where
  "resolveAt E w cloneUrl p =
     (if fs_existsSync E w p \<and> fs_isDirectory E w p then
        (if fs_existsSync E w (path_join E [p, ''.git'']) then (p, path_basename E p)
         else (let repoName = extractRepoNameFromUrl E w cloneUrl
               in (path_join E [p, repoName], repoName)))
      else (p, path_basename E p))"

definition resolveTarget :: "'w env \<Rightarrow> 'w \<Rightarrow> string \<Rightarrow> string option \<Rightarrow> string \<times> string" where
  "resolveTarget E w cloneUrl targetDirectory =
     (if given targetDirectory then
        (let t = the targetDirectory in
         if path_isAbsolute E t then resolveAt E w cloneUrl t
         else resolveAt E w cloneUrl (path_resolve E [t]))
      else (let repoName = extractRepoNameFromUrl E w cloneUrl
            in (path_resolve E [defaultDirectory E, repoName], repoName)))"


text \<open>
  For stating what the pattern extracts: the text after the last slash of a URL, and a
  string with a trailing \<^verbatim>\<open>.git\<close> removed (the specification's words).
  \<open>segmentName\<close> is what the lazy group makes of a non-empty last segment: the group
  needs one character at least, so a segment that is \<^verbatim>\<open>.git\<close> and nothing else stays
  as it is.
\<close>

definition lastSegment :: "string \<Rightarrow> string" where
  "lastSegment url = rev (takeWhile (\<lambda>c. c \<noteq> CHR ''/'') (rev url))"

definition stripDotGit :: "string \<Rightarrow> string" where
  "stripDotGit seg = (if suffix ''.git'' seg then take (length seg - 4) seg else seg)"

definition segmentName :: "string \<Rightarrow> string" where
  "segmentName seg = (if seg = ''.git'' then ''.git'' else stripDotGit seg)"

text \<open>The hint made absolute: itself when absolute, else resolved against the working
  directory.\<close>

definition absoluteHint :: "'w env \<Rightarrow> string \<Rightarrow> string" where
  "absoluteHint E t = (if path_isAbsolute E t then t else path_resolve E [t])"


section \<open>AddOnHandler: clone or pull\<close>

text \<open>\<^verbatim>\<open>readWinCCOAPackageJson\<close>: every throw inside (the read, the parse) is caught
  and turned into \<^verbatim>\<open>null\<close>.\<close>

definition readWinCCOAPackageJson :: "'w env \<Rightarrow> 'w \<Rightarrow> string \<Rightarrow> string option" where
  "readWinCCOAPackageJson E w repositoryPath =
     (let packageWinCCoAPath = path_join E [repositoryPath, ''package.winccoa.json'']
      in if fs_existsSync E w packageWinCCoAPath then
           (case fs_readFileSync E w packageWinCCoAPath of
              Inl e \<Rightarrow> None
            | Inr fileContent \<Rightarrow>
                (case JSON_parse E fileContent of
                   Inl e \<Rightarrow> None
                 | Inr v \<Rightarrow> Some (JSON_stringify E v 2)))
         else None)"

definition pullSummaryLine :: "PullResult \<Rightarrow> string" where
  "pullSummaryLine pullResult =
     (if changes (summary pullResult) \<noteq> 0
      then ''Pull completed: '' @ showInt (changes (summary pullResult)) @ '' changes, ''
           @ showInt (insertions (summary pullResult)) @ '' insertions, ''
           @ showInt (deletions (summary pullResult)) @ '' deletions''
      else ''Repository is already up to date'')"

text \<open>The pull, the report of its summary and the probe of the manifest: the source has
  this block twice, for the existing repository and after the clone.\<close>

definition pullLatest ::
  "'w env \<Rightarrow> string \<Rightarrow> 'w \<Rightarrow> call list \<times> (exn + string \<times> string option) \<times> 'w" where
  "pullLatest E fullPath w =
     (case git_pull E fullPath w of
        (Inl e, w1) \<Rightarrow> ([GitPull fullPath], Inl e, w1)
      | (Inr pullResult, w1) \<Rightarrow>
          ([GitPull fullPath, ConsoleLog (pullSummaryLine pullResult)],
           Inr (fullPath, readWinCCOAPackageJson E w1 fullPath), w1))"

definition cloneOptions :: "string option \<Rightarrow> string list" where
  "cloneOptions branch = (if given branch then [''--branch'', the branch] else [])"

text \<open>The \<^verbatim>\<open>try\<close> block of \<^verbatim>\<open>cloneRepository\<close>.\<close>

definition cloneBody ::
  "'w env \<Rightarrow> string \<Rightarrow> string option \<Rightarrow> string option \<Rightarrow> 'w
     \<Rightarrow> call list \<times> (exn + string \<times> string option) \<times> 'w" where
  "cloneBody E cloneUrl targetDirectory branch w =
     (case resolveTarget E w cloneUrl targetDirectory of
        (fullPath, repoName) \<Rightarrow>
          if fs_existsSync E w fullPath then pullLatest E fullPath w
          else
            (let parentDir = path_dirname E fullPath
             in case (if \<not> fs_existsSync E w parentDir
                      then (case fs_mkdirSync E parentDir w of (r, w1) \<Rightarrow> ([MkdirRecursive parentDir], r, w1))
                      else ([], Inr (), w)) of
                  (c1, Inl e, w1) \<Rightarrow> (c1, Inl e, w1)
                | (c1, Inr _, w1) \<Rightarrow>
                    (case git_clone E parentDir cloneUrl repoName (cloneOptions branch) w1 of
                       (Inl e, w2) \<Rightarrow>
                         (c1 @ [GitClone parentDir cloneUrl repoName (cloneOptions branch)], Inl e, w2)
                     | (Inr _, w2) \<Rightarrow>
                         (case pullLatest E fullPath w2 of
                            (c3, r, w3) \<Rightarrow>
                              (c1 @ [GitClone parentDir cloneUrl repoName (cloneOptions branch)] @ c3, r, w3)))))"

text \<open>The \<^verbatim>\<open>catch\<close> block: the error thrown instead, chosen by phrases of the message.\<close>

definition cloneError :: "'w env \<Rightarrow> 'w \<Rightarrow> string \<Rightarrow> string option \<Rightarrow> exn \<Rightarrow> exn" where
  "cloneError E w cloneUrl targetDirectory e =
     (let m = exn_message e
      in if strIncludes m ''repository not found''
            \<or> strIncludes m ''could not read from remote repository''
            \<or> strIncludes m ''not found''
            \<or> strIncludes m ''does not exist''
         then newError (''Repository not found at URL: '' @ cloneUrl
                        @ ''. Please check the URL and your access permissions.'')
         else if strIncludes m ''already exists'' \<or> strIncludes m ''destination path''
         then newError (''Directory '' @ [CHR 0x27]
                        @ (if given targetDirectory then the targetDirectory
                           else extractRepoNameFromUrl E w cloneUrl)
                        @ [CHR 0x27] @ '' already exists'')
         else if strIncludes m ''Permission denied'' \<or> strIncludes m ''authentication''
         then newError (''Authentication failed. Please check your credentials for URL: '' @ cloneUrl)
         else newError (''Failed to clone repository from URL: '' @ m))"

definition cloneRepository ::
  "'w env \<Rightarrow> string \<Rightarrow> string option \<Rightarrow> string option \<Rightarrow> 'w
     \<Rightarrow> call list \<times> (exn + string \<times> string option) \<times> 'w" where
  "cloneRepository E cloneUrl targetDirectory branch w =
     (case cloneBody E cloneUrl targetDirectory branch w of
        (cs, Inl e, w') \<Rightarrow> (cs, Inl (cloneError E w' cloneUrl targetDirectory e), w')
      | (cs, Inr res, w') \<Rightarrow> (cs, Inr res, w'))"


section \<open>AddOnHandler: registering a sub-project\<close>

datatype StartMode = Always | Manual | Once | Unknown

fun startModeValue :: "StartMode \<Rightarrow> string" where
  "startModeValue Always = ''always''"
| "startModeValue Manual = ''manual''"
| "startModeValue Once = ''once''"
| "startModeValue Unknown = []"

record ManagerConfig =
  Name :: string
  StartMode :: StartMode
  Options :: string

record AddonConfig =
  RepoName :: string
  Keywords :: "string list"
  Subproject :: string
  Version :: string
  Description :: string
  OaVersion :: string
  Managers :: "ManagerConfig list option"
  Dplists :: "string list option"
  UpdateScripts :: "string list option"

definition addManagerArgs :: "ManagerConfig \<Rightarrow> string list" where
  "addManagerArgs manager = [Name manager, startModeValue (StartMode manager), Options manager, [], []]"

definition addManagerCall :: "ManagerConfig \<Rightarrow> call" where
  "addManagerCall manager = CtrlStart ''addManager'' (addManagerArgs manager)"

text \<open>The \<^verbatim>\<open>for\<close> loop over the managers: each \<^verbatim>\<open>ctrlScript.start("addManager", ...)\<close> is
  awaited in turn, its value is dropped, and nothing catches its throw.\<close>

fun attachManagers :: "'w env \<Rightarrow> ManagerConfig list \<Rightarrow> 'w \<Rightarrow> call list \<times> (exn + unit) \<times> 'w" where
  "attachManagers E [] w = ([], Inr (), w)"
| "attachManagers E (manager # managers) w =
     (case ctrl_start E ''addManager'' (addManagerArgs manager) w of
        (Inl e, w1) \<Rightarrow> ([addManagerCall manager], Inl e, w1)
      | (Inr _, w1) \<Rightarrow>
          (case attachManagers E managers w1 of
             (cs, r, w2) \<Rightarrow> (addManagerCall manager # cs, r, w2)))"

definition registerSubProject ::
  "'w env \<Rightarrow> string \<Rightarrow> AddonConfig \<Rightarrow> 'w \<Rightarrow> call list \<times> (exn + js_value) \<times> 'w" where
  "registerSubProject E path config w =
     (case ctrl_start E ''registerSubProj'' [path] w of
        (Inl e, w1) \<Rightarrow> ([CtrlStart ''registerSubProj'' [path]], Inl e, w1)
      | (Inr ret, w1) \<Rightarrow>
          (case installAndBuild E path w1 of
             (ci, Inl e, w2) \<Rightarrow> (CtrlStart ''registerSubProj'' [path] # ci, Inl e, w2)
           | (ci, Inr _, w2) \<Rightarrow>
               (case attachManagers E (case Managers config of None \<Rightarrow> [] | Some ms \<Rightarrow> ms) w2 of
                  (cm, Inl e, w3) \<Rightarrow> (CtrlStart ''registerSubProj'' [path] # ci @ cm, Inl e, w3)
                | (cm, Inr _, w3) \<Rightarrow> (CtrlStart ''registerSubProj'' [path] # ci @ cm, Inr ret, w3))))"


section \<open>AddOnHandler: listing an organization's repositories\<close>


















section \<open>Exit-code classification (AsciiManager.import)\<close>

text \<open>
  \<^verbatim>\<open>AsciiManager.import\<close> decides on the exit code of the import command with two
  membership tests, in this order: the success codes first, the warning codes second,
  everything else is an error. The three outcomes of that chain are the three tiers the
  class comment names. The two code lists are the class constants
  \<^verbatim>\<open>SUCCESS_EXIT_CODES = [0]\<close> and \<^verbatim>\<open>WARNING_EXIT_CODES = [55]\<close>; the chain itself
  is written over any two lists, and \<open>classifyImport\<close> is the chain at the constants.
\<close>

datatype ExitClassification = Success | Warning | Error

definition SUCCESS_EXIT_CODES :: "int list" where
  "SUCCESS_EXIT_CODES = [0]"

definition WARNING_EXIT_CODES :: "int list" where
  "WARNING_EXIT_CODES = [55]"

text \<open>\<^verbatim>\<open>Array.prototype.includes\<close> on a list of numbers.\<close>

definition arrayIncludes :: "'a list \<Rightarrow> 'a \<Rightarrow> bool" where
  "arrayIncludes xs x = (x \<in> set xs)"

definition classify :: "int \<Rightarrow> int list \<Rightarrow> int list \<Rightarrow> ExitClassification" where
  "classify code successCodes warningCodes =
     (if arrayIncludes successCodes code then Success
      else if arrayIncludes warningCodes code then Warning
      else Error)"

definition classifyImport :: "int \<Rightarrow> ExitClassification" where
  "classifyImport code = classify code SUCCESS_EXIT_CODES WARNING_EXIT_CODES"

text \<open>The boolean \<^verbatim>\<open>import\<close> resolves to once the command has run: true for a success
  or a warning code, false for any other.\<close>

definition importResult :: "int \<Rightarrow> bool" where
  "importResult code =
     (case classifyImport code of Success \<Rightarrow> True | Warning \<Rightarrow> True | Error \<Rightarrow> False)"


section \<open>A POSIX instance of the environment, for the concrete examples\<close>

text \<open>
  Node's \<^verbatim>\<open>path\<close> module for POSIX paths, after its sources: \<open>normalizeString\<close>
  drops empty and \<^verbatim>\<open>.\<close> segments and resolves \<^verbatim>\<open>..\<close> against the segments kept so
  far (keeping a leading \<^verbatim>\<open>..\<close> only when the path is relative). The general theorems
  below hold for every environment; the examples run in this one.
\<close>

fun splitOn :: "char \<Rightarrow> string \<Rightarrow> string list" where
  "splitOn c [] = [[]]"
| "splitOn c (x # xs) =
     (if x = c then [] # splitOn c xs
      else (case splitOn c xs of s # ss \<Rightarrow> (x # s) # ss | [] \<Rightarrow> [[x]]))"

fun normSegs :: "bool \<Rightarrow> string list \<Rightarrow> string list \<Rightarrow> string list" where
  "normSegs up st [] = rev st"
| "normSegs up st (s # ss) =
     (if s = [] \<or> s = ''.'' then normSegs up st ss
      else if s = ''..'' then
        (case st of
           t # ts \<Rightarrow> if t \<noteq> ''..'' then normSegs up ts ss
                     else if up then normSegs up (''..'' # st) ss else normSegs up st ss
         | [] \<Rightarrow> if up then normSegs up [''..''] ss else normSegs up [] ss)
      else normSegs up (s # st) ss)"

definition normalizeString :: "string \<Rightarrow> bool \<Rightarrow> string" where
  "normalizeString p up = joinWith ''/'' (normSegs up [] (splitOn CHR ''/'' p))"

definition posix_isAbsolute :: "string \<Rightarrow> bool" where
  "posix_isAbsolute p = (case p of [] \<Rightarrow> False | c # _ \<Rightarrow> c = CHR ''/'')"

definition posix_normalize :: "string \<Rightarrow> string" where
  "posix_normalize p =
     (if p = [] then ''.''
      else (let isAbs = posix_isAbsolute p;
                trailing = (last p = CHR ''/'');
                body = normalizeString p (\<not> isAbs)
            in if body = [] then (if isAbs then ''/'' else if trailing then ''./'' else ''.'')
               else (if isAbs then ''/'' else []) @ body @ (if trailing then ''/'' else [])))"

definition posix_join :: "string list \<Rightarrow> string" where
  "posix_join args =
     (let parts = filter (\<lambda>a. a \<noteq> []) args
      in if parts = [] then ''.'' else posix_normalize (joinWith ''/'' parts))"

fun resolveParts :: "string list \<Rightarrow> string \<Rightarrow> string" where
  "resolveParts [] acc = acc"
| "resolveParts (p # ps) acc =
     (if p = [] then resolveParts ps acc
      else if posix_isAbsolute p then p @ ''/'' @ acc
      else resolveParts ps (p @ ''/'' @ acc))"

definition posix_resolve :: "string \<Rightarrow> string list \<Rightarrow> string" where
  "posix_resolve cwd args =
     (let r = resolveParts (rev args @ [cwd]) [];
          isAbs = posix_isAbsolute r;
          body = normalizeString r (\<not> isAbs)
      in if isAbs then ''/'' @ body else if body \<noteq> [] then body else ''.'')"

definition posix_basename :: "string \<Rightarrow> string" where
  "posix_basename p =
     rev (takeWhile (\<lambda>c. c \<noteq> CHR ''/'') (dropWhile (\<lambda>c. c = CHR ''/'') (rev p)))"

definition posix_dirname :: "string \<Rightarrow> string" where
  "posix_dirname p =
     (if p = [] then ''.''
      else (let r = dropWhile (\<lambda>c. c \<noteq> CHR ''/'') (dropWhile (\<lambda>c. c = CHR ''/'') (rev p))
            in if length r < 2 then (if posix_isAbsolute p then ''/'' else ''.'')
               else if posix_isAbsolute p \<and> length r = 2 then ''//''
               else rev (tl r)))"

text \<open>
  The example world: the directories and the regular files (with their content) on
  disk, and the clock. The working directory is \<^verbatim>\<open>/work\<close>, and so is the default
  directory (off Windows the constructor takes the working directory). Its collaborators
  are small and fixed:
  \<^item> pull succeeds in an existing directory: with 3 changed files, 10 insertions and 2
    deletions in \<^verbatim>\<open>/existing/repo\<close>, with no changes anywhere else;
  \<^item> clone and mkdir create the directory;
  \<^item> \<^verbatim>\<open>exec\<close> refuses the empty command, as Node does, by throwing; a command run in
    \<^verbatim>\<open>/bad/javascript/a\<close> exits with code 1; \<^verbatim>\<open>npx tsc\<close> run in
    \<^verbatim>\<open>/bad/javascript/c\<close> exits with code 2; in the missing directory \<^verbatim>\<open>/gone\<close> no
    process can be started and the error's code is the string \<^verbatim>\<open>ENOENT\<close>; any other
    command exits with code 0 and no error object;
  \<^item> attaching the manager named \<^verbatim>\<open>broken\<close> throws, every other control call
    returns 0;
  \<^item> the JSON parser knows the empty object and rejects everything else;
  \<^item> the organization has three repositories, served in pages of the requested size.
\<close>

record xworld =
  x_dirs :: "string list"
  x_files :: "(string \<times> string) list"
  x_now :: nat

definition xrepos :: "js_value list" where
  "xrepos = [JObj [(''name'', JStr ''r1'')],
             JObj [(''name'', JStr ''r2''), (''license'', JObj [(''name'', JStr ''MIT'')])],
             JObj [(''name'', JStr ''r3'')]]"

definition xenv :: "xworld env" where
  "xenv =
     \<lparr> path_isAbsolute = posix_isAbsolute,
       path_resolve = posix_resolve ''/work'',
       path_join = posix_join,
       path_basename = posix_basename,
       path_dirname = posix_dirname,
       path_normalize = posix_normalize,
       fs_existsSync = (\<lambda>w p. p \<in> set (x_dirs w) \<or> map_of (x_files w) p \<noteq> None),
       fs_isDirectory = (\<lambda>w p. p \<in> set (x_dirs w)),
       fs_readFileSync = (\<lambda>w p. case map_of (x_files w) p of
                                    Some c \<Rightarrow> Inr c
                                  | None \<Rightarrow> Inl (newError ''ENOENT: no such file or directory'')),
       fs_readdir = (\<lambda>w p.
          if p = ''/proj/javascript'' then
            Inr [FileEntry ''README.md'',
                 DirEntry ''node_modules'' (Inr [DirEntry ''dep'' (Inr [FileEntry ''package.json''])]),
                 DirEntry ''app'' (Inr [FileEntry ''package.json'', DirEntry ''lib'' (Inr [])])]
          else if p = ''/bad/javascript'' then
            Inr [DirEntry ''a'' (Inr [FileEntry ''package.json'']),
                 DirEntry ''b'' (Inr [FileEntry ''package.json''])]
          else Inl (newError ''ENOTDIR: not a directory'')),
       fs_mkdirSync = (\<lambda>p w. (Inr (), w\<lparr>x_dirs := p # x_dirs w\<rparr>)),
       git_pull = (\<lambda>dir w.
          if dir \<in> set (x_dirs w)
          then (Inr (if dir = ''/existing/repo''
                     then \<lparr> summary = \<lparr> changes = 3, insertions = 10, deletions = 2 \<rparr>,
                            files = [''README.md'', ''src/a.ts'', ''src/b.ts''] \<rparr>
                     else \<lparr> summary = \<lparr> changes = 0, insertions = 0, deletions = 0 \<rparr>, files = [] \<rparr>), w)
          else (Inl (newError ''fatal: not a git repository''), w)),
       git_clone = (\<lambda>base url name opts w. (Inr (), w\<lparr>x_dirs := posix_join [base, name] # x_dirs w\<rparr>)),
       JSON_parse = (\<lambda>s. if s = ''{}'' then Inr (JObj []) else Inl (newError ''Unexpected token'')),
       JSON_stringify = (\<lambda>v n. ''{}''),
       Date_now = x_now,
       ctrl_start = (\<lambda>fn args w.
          if fn = ''addManager'' \<and> take 1 args = [''broken'']
          then (Inl (newError ''pmon refused''), w)
          else (Inr (JNum 0), w)),
       child_exec = (\<lambda>cmd cwd w.
          if cmd = []
          then (Inl (newError ''The argument file cannot be empty''), w)
          else if cwd = Some ''/bad/javascript/a''
          then (Inr (Some \<lparr> err_code = JNum 1, err_message = ''Command failed'' \<rparr>, [], ''npm ERR!''), w)
          else if cwd = Some ''/bad/javascript/c'' \<and> cmd = ''npx tsc''
          then (Inr (Some \<lparr> err_code = JNum 2, err_message = ''Command failed'' \<rparr>, ''error TS2304'', []), w)
          else if cwd = Some ''/gone''
          then (Inr (Some \<lparr> err_code = JStr ''ENOENT'', err_message = ''spawn /bin/sh ENOENT'' \<rparr>, [], []), w)
          else (Inr (None, ''ok'', []), w)),
       octokit_listForOrg = (\<lambda>ps w.
          (Inr (take (nat (p_per_page ps)) (drop (nat ((p_page ps - 1) * p_per_page ps)) xrepos)), w)),
       defaultDirectory = ''/work'' \<rparr>"

definition xw0 :: xworld where
  "xw0 = \<lparr> x_dirs = [''/work'', ''/work/.git'', ''/existing'', ''/existing/plainDir'',
                     ''/existing/repo'', ''/existing/repo/.git'', ''/existing/addon'',
                     ''/existing/addon/.git'',
                     ''/proj/javascript'', ''/bad/javascript''],
           x_files = [(''/existing/repo/package.winccoa.json'', ''{}''),
                      (''/existing/addon/package.winccoa.json'', ''{ not json'')],
           x_now = 1754000000000 \<rparr>"


text \<open>Two managers for the examples: one whose \<^verbatim>\<open>getPaths()\<close> returns the project
  path, a sub-project path and the installation path, and one whose \<^verbatim>\<open>getPaths()\<close>
  throws.\<close>

definition xwinccoa :: WinccoaManager where
  "xwinccoa = \<lparr> getPaths = Inr (JArr [JStr ''/opt/proj/./demo/'', JStr ''/opt/proj/sub'',
                                      JStr ''/opt/WinCC_OA/3.21/bin/..'']) \<rparr>"

definition xwinccoaDown :: WinccoaManager where
  "xwinccoaDown = \<lparr> getPaths = Inl (newError ''manager is not connected'') \<rparr>"



definition xmanager :: "string \<Rightarrow> ManagerConfig" where
  "xmanager n = \<lparr> Name = n, StartMode = Always, Options = ''-num 2'' \<rparr>"

definition xconfig :: "ManagerConfig list \<Rightarrow> AddonConfig" where
  "xconfig ms = \<lparr> RepoName = ''demo'', Keywords = [], Subproject = ''demo'', Version = ''1.0.0'',
                   Description = [], OaVersion = ''3.21'', Managers = Some ms,
                   Dplists = None, UpdateScripts = None \<rparr>"


section \<open>Theorems\<close>

subsection \<open>C1: attaching the managers\<close>

lemma attachManagers_prefix:
  "attachManagers E ms w = (cs, r, w') \<Longrightarrow>
     prefix cs (map addManagerCall ms) \<and> (r = Inr () \<longrightarrow> cs = map addManagerCall ms)"
proof (induction ms arbitrary: w cs r w')
  case Nil
  then show ?case by simp
next
  case (Cons m ms)
  obtain r1 w1 where c: "ctrl_start E ''addManager'' (addManagerArgs m) w = (r1, w1)"
    by (cases "ctrl_start E ''addManager'' (addManagerArgs m) w")
  show ?case
  proof (cases r1)
    case (Inl e)
    with c Cons.prems show ?thesis by auto
  next
    case (Inr v)
    obtain cs2 r2 w2 where rest: "attachManagers E ms w1 = (cs2, r2, w2)"
      by (metis prod_cases3)
    from c Inr rest Cons.prems have "cs = addManagerCall m # cs2" "r = r2" by auto
    with Cons.IH[OF rest] show ?thesis by auto
  qed
qed

lemma attachManagers_Cons_ok:
  assumes "attachManagers E (m # ms) w = (cs, Inr (), w')"
  shows "\<exists>v w1 cs2. ctrl_start E ''addManager'' (addManagerArgs m) w = (Inr v, w1)
           \<and> attachManagers E ms w1 = (cs2, Inr (), w') \<and> cs = addManagerCall m # cs2"
proof -
  obtain r1 w1 where c: "ctrl_start E ''addManager'' (addManagerArgs m) w = (r1, w1)"
    by (cases "ctrl_start E ''addManager'' (addManagerArgs m) w")
  obtain cs2 r2 w2 where rest: "attachManagers E ms w1 = (cs2, r2, w2)"
    by (metis prod_cases3)
  from assms c obtain v where r1: "r1 = Inr v" by (cases r1) auto
  from assms c r1 rest have "cs = addManagerCall m # cs2" "r2 = Inr ()" "w2 = w'" by auto
  with c r1 rest show ?thesis by blast
qed

lemma attachManagers_append:
  "attachManagers E pre w = (cp, Inr (), w1) \<Longrightarrow>
     attachManagers E (pre @ rest) w =
       (case attachManagers E rest w1 of (cs, r, w2) \<Rightarrow> (cp @ cs, r, w2))"
proof (induction pre arbitrary: w cp)
  case Nil
  then show ?case by (cases "attachManagers E rest w1") simp
next
  case (Cons m pre)
  from attachManagers_Cons_ok[OF Cons.prems] obtain v v1 cs2 where
    c: "ctrl_start E ''addManager'' (addManagerArgs m) w = (Inr v, v1)" and
    p: "attachManagers E pre v1 = (cs2, Inr (), w1)" and
    cp: "cp = addManagerCall m # cs2"
    by blast
  have "attachManagers E ((m # pre) @ rest) w =
          (case attachManagers E (pre @ rest) v1 of (cs, r, w2) \<Rightarrow> (addManagerCall m # cs, r, w2))"
    using c by simp
  also have "attachManagers E (pre @ rest) v1 =
          (case attachManagers E rest w1 of (cs, r, w2) \<Rightarrow> (cs2 @ cs, r, w2))"
    by (rule Cons.IH[OF p])
  finally show ?case using cp by (cases "attachManagers E rest w1") simp
qed

lemma xrun_ok:
  "runCommand xenv ''npm'' [''install''] ''/proj/javascript/app'' w
     = ([Exec ''npm install'' (Some ''/proj/javascript/app'')], Inr (), w)"
  "runCommand xenv ''npx'' [''tsc''] ''/proj/javascript/app'' w
     = ([Exec ''npx tsc'' (Some ''/proj/javascript/app'')], Inr (), w)"
  by (simp_all add: runCommand_def execute_def execCallback_def xenv_def)

lemma xinstall_proj:
  "installAndBuild xenv ''/proj'' xw0 = (allCommands [''/proj/javascript/app''], Inr (), xw0)"
proof -
  have "findPackageDirs xenv xw0 ''/proj/javascript'' = Inr [''/proj/javascript/app'']"
    by (simp add: findPackageDirs_def xenv_def xw0_def posix_join_def posix_normalize_def
        posix_isAbsolute_def normalizeString_def)
  then show ?thesis
    by (simp add: installAndBuild_def allCommands_def dirCommands_def xrun_ok)
qed

lemma xctrl:
  "ctrl_start xenv ''registerSubProj'' [''/proj''] xw0 = (Inr (JNum 0), xw0)"
  "ctrl_start xenv ''addManager'' (addManagerArgs (xmanager ''broken'')) xw0 = (Inl (newError ''pmon refused''), xw0)"
  "ctrl_start xenv ''addManager'' (addManagerArgs (xmanager ''first'')) xw0 = (Inr (JNum 0), xw0)"
  "ctrl_start xenv ''addManager'' (addManagerArgs (xmanager ''second'')) xw0 = (Inr (JNum 0), xw0)"
  by (simp_all add: xenv_def addManagerArgs_def xmanager_def)

text \<open>
  C1 as stated fails: with two managers, a throwing first attachment ends the
  registration, and the second attachment is never attempted.
\<close>

theorem register_stops_at_throwing_manager:
  "registerSubProject xenv ''/proj'' (xconfig [xmanager ''broken'', xmanager ''second'']) xw0 =
     ([CtrlStart ''registerSubProj'' [''/proj''],
       Exec ''npm install'' (Some ''/proj/javascript/app''),
       Exec ''npx tsc'' (Some ''/proj/javascript/app''),
       CtrlStart ''addManager'' [''broken'', ''always'', ''-num 2'', [], []]],
      Inl (newError ''pmon refused''), xw0)
   \<and> addManagerCall (xmanager ''second'')
        \<notin> set (fst (registerSubProject xenv ''/proj'' (xconfig [xmanager ''broken'', xmanager ''second'']) xw0))"
  by (simp add: registerSubProject_def xctrl xinstall_proj xconfig_def allCommands_def dirCommands_def
      addManagerCall_def)
     (simp add: addManagerArgs_def xmanager_def)

text \<open>
  C1, amended. After the registration call and the install/build have succeeded, the
  managers are attached one after another in the listed order. An attachment that
  throws ends the registration with that error: the attachments made are those of the
  managers before it and its own, and no later manager is attempted. An attachment that
  returns, whatever it returns, is followed by the next one; when none throws, every
  manager has been attached and the registration returns the registration call's value.
\<close>

theorem register_attaches_until_first_throw:
  "prefix (fst (attachManagers E ms w)) (map addManagerCall ms)
   \<and> (fst (snd (attachManagers E ms w)) = Inr () \<longrightarrow>
        fst (attachManagers E ms w) = map addManagerCall ms)
   \<and> (attachManagers E pre w = (cp, Inr (), w1)
        \<and> ctrl_start E ''addManager'' (addManagerArgs m) w1 = (Inl e, w2)
      \<longrightarrow> attachManagers E (pre @ m # post) w
            = (map addManagerCall pre @ [addManagerCall m], Inl e, w2))
   \<and> (ctrl_start E ''addManager'' (addManagerArgs m) w = (Inr v, w1)
      \<longrightarrow> attachManagers E (m # post) w
            = (case attachManagers E post w1 of (cs, r, w3) \<Rightarrow> (addManagerCall m # cs, r, w3)))
   \<and> (ctrl_start E ''registerSubProj'' [path] w0 = (Inr ret, wr)
        \<and> installAndBuild E path wr = (ci, Inr (), w)
        \<and> Managers config = Some ms
      \<longrightarrow> registerSubProject E path config w0
            = (case attachManagers E ms w of
                 (cm, r, w3) \<Rightarrow>
                   (CtrlStart ''registerSubProj'' [path] # ci @ cm,
                    (case r of Inl x \<Rightarrow> Inl x | Inr u \<Rightarrow> Inr ret), w3)))"
proof -
  obtain cs r w' where run: "attachManagers E ms w = (cs, r, w')" by (metis prod_cases3)
  have a: "prefix (fst (attachManagers E ms w)) (map addManagerCall ms)"
    and b: "fst (snd (attachManagers E ms w)) = Inr () \<longrightarrow>
        fst (attachManagers E ms w) = map addManagerCall ms"
    using attachManagers_prefix[OF run] run by simp_all
  have c: "attachManagers E pre w = (cp, Inr (), w1)
        \<and> ctrl_start E ''addManager'' (addManagerArgs m) w1 = (Inl e, w2)
      \<longrightarrow> attachManagers E (pre @ m # post) w
            = (map addManagerCall pre @ [addManagerCall m], Inl e, w2)"
  proof (intro impI, elim conjE)
    assume p: "attachManagers E pre w = (cp, Inr (), w1)"
      and t: "ctrl_start E ''addManager'' (addManagerArgs m) w1 = (Inl e, w2)"
    have cp: "cp = map addManagerCall pre" using attachManagers_prefix[OF p] by simp
    have "attachManagers E (m # post) w1 = ([addManagerCall m], Inl e, w2)" using t by simp
    with attachManagers_append[OF p, of "m # post"] cp
    show "attachManagers E (pre @ m # post) w
            = (map addManagerCall pre @ [addManagerCall m], Inl e, w2)"
      by simp
  qed
  have d: "ctrl_start E ''addManager'' (addManagerArgs m) w = (Inr v, w1)
      \<longrightarrow> attachManagers E (m # post) w
            = (case attachManagers E post w1 of (cs, r, w3) \<Rightarrow> (addManagerCall m # cs, r, w3))"
    by simp
  have e: "ctrl_start E ''registerSubProj'' [path] w0 = (Inr ret, wr)
        \<and> installAndBuild E path wr = (ci, Inr (), w)
        \<and> Managers config = Some ms
      \<longrightarrow> registerSubProject E path config w0
            = (case attachManagers E ms w of
                 (cm, r, w3) \<Rightarrow>
                   (CtrlStart ''registerSubProj'' [path] # ci @ cm,
                    (case r of Inl x \<Rightarrow> Inl x | Inr u \<Rightarrow> Inr ret), w3))"
    by (auto simp: registerSubProject_def split: prod.splits sum.splits)
  from a b c d e show ?thesis by blast
qed

theorem register_attaches_until_first_throw_witness:
  "attachManagers xenv [xmanager ''first'', xmanager ''broken'', xmanager ''second''] xw0 =
     ([addManagerCall (xmanager ''first''), addManagerCall (xmanager ''broken'')],
      Inl (newError ''pmon refused''), xw0)
   \<and> registerSubProject xenv ''/proj'' (xconfig [xmanager ''first'', xmanager ''second'']) xw0 =
     ([CtrlStart ''registerSubProj'' [''/proj''],
       Exec ''npm install'' (Some ''/proj/javascript/app''),
       Exec ''npx tsc'' (Some ''/proj/javascript/app''),
       addManagerCall (xmanager ''first''), addManagerCall (xmanager ''second'')],
      Inr (JNum 0), xw0)"
proof -
  have pre: "attachManagers xenv [xmanager ''first''] xw0 = ([addManagerCall (xmanager ''first'')], Inr (), xw0)"
    by (simp add: xctrl)
  have both: "attachManagers xenv [xmanager ''first'', xmanager ''second''] xw0
      = ([addManagerCall (xmanager ''first''), addManagerCall (xmanager ''second'')], Inr (), xw0)"
    by (simp add: xctrl)
  have cfg: "Managers (xconfig [xmanager ''first'', xmanager ''second'']) = Some [xmanager ''first'', xmanager ''second'']"
    by (simp add: xconfig_def)
  have 1: "attachManagers xenv [xmanager ''first'', xmanager ''broken'', xmanager ''second''] xw0 =
     ([addManagerCall (xmanager ''first''), addManagerCall (xmanager ''broken'')],
      Inl (newError ''pmon refused''), xw0)"
    using register_attaches_until_first_throw[where E = xenv and w = xw0 and pre = "[xmanager ''first'']"
        and cp = "[addManagerCall (xmanager ''first'')]" and ?w1.0 = xw0 and m = "xmanager ''broken''"
        and e = "newError ''pmon refused''" and ?w2.0 = xw0 and post = "[xmanager ''second'']"]
      pre xctrl(2)
    by simp
  have 2: "registerSubProject xenv ''/proj'' (xconfig [xmanager ''first'', xmanager ''second'']) xw0 =
     ([CtrlStart ''registerSubProj'' [''/proj''],
       Exec ''npm install'' (Some ''/proj/javascript/app''),
       Exec ''npx tsc'' (Some ''/proj/javascript/app''),
       addManagerCall (xmanager ''first''), addManagerCall (xmanager ''second'')],
      Inr (JNum 0), xw0)"
    using register_attaches_until_first_throw[where E = xenv and w = xw0 and ?w0.0 = xw0 and wr = xw0
        and path = "''/proj''" and ret = "JNum 0" and ci = "allCommands [''/proj/javascript/app'']"
        and config = "xconfig [xmanager ''first'', xmanager ''second'']"
        and ms = "[xmanager ''first'', xmanager ''second'']"]
      xctrl(1) xinstall_proj cfg both
    by (simp add: allCommands_def dirCommands_def)
  from 1 2 show ?thesis by blast
qed


subsection \<open>C2: installing and building the package directories\<close>

lemma runCommand_call:
  "runCommand E cmd args cwd w = (cs, r, w') \<Longrightarrow> cs = [Exec (joinWith '' '' (cmd # args)) (Some cwd)]"
  by (auto simp: runCommand_def execute_def split: prod.splits sum.splits if_splits)

lemma runCommand_npm: "fst (runCommand E ''npm'' [''install''] dir w) = [Exec ''npm install'' (Some dir)]"
  using runCommand_call[of E "''npm''" "[''install'']" dir w] by (cases "runCommand E ''npm'' [''install''] dir w") simp

lemma runCommand_npx: "fst (runCommand E ''npx'' [''tsc''] dir w) = [Exec ''npx tsc'' (Some dir)]"
  using runCommand_call[of E "''npx''" "[''tsc'']" dir w] by (cases "runCommand E ''npx'' [''tsc''] dir w") simp

lemma runCommand_fails_iff:
  "(\<exists>e. fst (snd (runCommand E cmd args cwd w)) = Inl e)
     = (\<not> exitsZero E (joinWith '' '' (cmd # args)) cwd w)"
  by (auto simp: runCommand_def exitsZero_def split: prod.splits sum.splits)

lemma runCommand_ok:
  assumes "exitsZero E (joinWith '' '' (cmd # args)) cwd w"
  shows "\<exists>w'. runCommand E cmd args cwd w = ([Exec (joinWith '' '' (cmd # args)) (Some cwd)], Inr (), w')"
proof -
  obtain cs r w' where run: "runCommand E cmd args cwd w = (cs, r, w')" by (metis prod_cases3)
  have "cs = [Exec (joinWith '' '' (cmd # args)) (Some cwd)]" using runCommand_call[OF run] .
  moreover have "r = Inr ()"
    using runCommand_fails_iff[of E cmd args cwd w] assms run by (cases r) auto
  ultimately show ?thesis using run by blast
qed

lemma installDirs_prefix:
  "installDirs E dirs w = (cs, r, w') \<Longrightarrow>
     prefix cs (allCommands dirs) \<and> (r = Inr () \<longrightarrow> cs = allCommands dirs)"
proof (induction dirs arbitrary: w cs r w')
  case Nil
  then show ?case by (simp add: allCommands_def)
next
  case (Cons dir dirs)
  obtain c1 r1 w1 where n: "runCommand E ''npm'' [''install''] dir w = (c1, r1, w1)"
    by (metis prod_cases3)
  have c1: "c1 = [Exec ''npm install'' (Some dir)]" using runCommand_npm[of E dir w] n by simp
  show ?case
  proof (cases r1)
    case (Inl e)
    with n Cons.prems c1 show ?thesis by (auto simp: allCommands_def dirCommands_def)
  next
    case (Inr u)
    note r1 = this
    obtain c2 r2 w2 where x: "runCommand E ''npx'' [''tsc''] dir w1 = (c2, r2, w2)"
      by (metis prod_cases3)
    have c2: "c2 = [Exec ''npx tsc'' (Some dir)]" using runCommand_npx[of E dir w1] x by simp
    show ?thesis
    proof (cases r2)
      case (Inl e)
      with n r1 x Cons.prems c1 c2 show ?thesis by (auto simp: allCommands_def dirCommands_def)
    next
      case (Inr u2)
      obtain cs3 r3 w3 where rest: "installDirs E dirs w2 = (cs3, r3, w3)"
        by (metis prod_cases3)
      from n r1 x Inr rest Cons.prems have "cs = c1 @ c2 @ cs3" "r = r3" by auto
      with Cons.IH[OF rest] c1 c2 show ?thesis by (auto simp: allCommands_def dirCommands_def)
    qed
  qed
qed

lemma installDirs_Cons:
  assumes "runCommand E ''npm'' [''install''] dir w = (c1, Inr u1, w1)"
    and "runCommand E ''npx'' [''tsc''] dir w1 = (c2, Inr u2, w2)"
  shows "installDirs E (dir # dirs) w =
           (case installDirs E dirs w2 of (cs, r, w3) \<Rightarrow> (c1 @ c2 @ cs, r, w3))"
  using assms by simp

lemma installDirs_step:
  assumes n: "runCommand E ''npm'' [''install''] dir w = (c1, Inr u1, w1)"
    and x: "runCommand E ''npx'' [''tsc''] dir w1 = (c2, Inr u2, w2)"
  shows "installDirs E (dir # dirs) w =
           (case installDirs E dirs w2 of (cs, r, w3) \<Rightarrow> (dirCommands dir @ cs, r, w3))"
proof -
  have "c1 = [Exec ''npm install'' (Some dir)]" using runCommand_npm[of E dir w] n by simp
  moreover have "c2 = [Exec ''npx tsc'' (Some dir)]" using runCommand_npx[of E dir w1] x by simp
  ultimately show ?thesis
    using installDirs_Cons[OF n x, of dirs]
    by (cases "installDirs E dirs w2") (simp add: dirCommands_def)
qed

lemma installDirs_Cons_ok:
  assumes "installDirs E (dir # dirs) w = (cs, Inr (), w')"
  shows "\<exists>c1 w1 c2 w2 cs3.
           runCommand E ''npm'' [''install''] dir w = (c1, Inr (), w1)
         \<and> runCommand E ''npx'' [''tsc''] dir w1 = (c2, Inr (), w2)
         \<and> installDirs E dirs w2 = (cs3, Inr (), w')
         \<and> cs = c1 @ c2 @ cs3"
proof -
  obtain c1 r1 w1 where n: "runCommand E ''npm'' [''install''] dir w = (c1, r1, w1)"
    by (metis prod_cases3)
  obtain c2 r2 w2 where x: "runCommand E ''npx'' [''tsc''] dir w1 = (c2, r2, w2)"
    by (metis prod_cases3)
  obtain cs3 r3 w3 where rest: "installDirs E dirs w2 = (cs3, r3, w3)"
    by (metis prod_cases3)
  from assms n have r1: "r1 = Inr ()" by (cases r1) auto
  from assms n r1 x have r2: "r2 = Inr ()" by (cases r2) auto
  from assms n r1 x r2 rest have "cs = c1 @ c2 @ cs3" "r3 = Inr ()" "w3 = w'" by auto
  with n r1 x r2 rest show ?thesis by blast
qed

lemma installDirs_append:
  "installDirs E pre w = (cp, Inr (), w1) \<Longrightarrow>
     installDirs E (pre @ rest) w = (case installDirs E rest w1 of (cs, r, w2) \<Rightarrow> (cp @ cs, r, w2))"
proof (induction pre arbitrary: w cp)
  case Nil
  then show ?case by (cases "installDirs E rest w1") simp
next
  case (Cons dir pre)
  from installDirs_Cons_ok[OF Cons.prems] obtain c1 v1 c2 v2 cs3 where
    n: "runCommand E ''npm'' [''install''] dir w = (c1, Inr (), v1)" and
    x: "runCommand E ''npx'' [''tsc''] dir v1 = (c2, Inr (), v2)" and
    p: "installDirs E pre v2 = (cs3, Inr (), w1)" and
    cp: "cp = c1 @ c2 @ cs3"
    by blast
  have "installDirs E ((dir # pre) @ rest) w =
          (case installDirs E (pre @ rest) v2 of (cs, r, w3) \<Rightarrow> (c1 @ c2 @ cs, r, w3))"
    using installDirs_Cons[OF n x, of "pre @ rest"] by simp
  also have "installDirs E (pre @ rest) v2 =
          (case installDirs E rest w1 of (cs, r, w2) \<Rightarrow> (cs3 @ cs, r, w2))"
    by (rule Cons.IH[OF p])
  finally show ?case using cp by (cases "installDirs E rest w1") simp
qed

lemma installDirs_install_fails:
  assumes p: "installDirs E pre w = (cp, Inr (), w1)"
    and n: "runCommand E ''npm'' [''install''] dir w1 = (c1, Inl e, w2)"
  shows "installDirs E (pre @ dir # post) w
           = (allCommands pre @ [Exec ''npm install'' (Some dir)], Inl e, w2)"
proof -
  have cp: "cp = allCommands pre" using installDirs_prefix[OF p] by simp
  have c1: "c1 = [Exec ''npm install'' (Some dir)]" using runCommand_npm[of E dir w1] n by simp
  have "installDirs E (dir # post) w1 = (c1, Inl e, w2)" using n by simp
  with installDirs_append[OF p, of "dir # post"] cp c1 show ?thesis by simp
qed

lemma installDirs_build_fails:
  assumes p: "installDirs E pre w = (cp, Inr (), w1)"
    and n: "runCommand E ''npm'' [''install''] dir w1 = (c1, Inr u, w2)"
    and x: "runCommand E ''npx'' [''tsc''] dir w2 = (c2, Inl e, w3)"
  shows "installDirs E (pre @ dir # post) w = (allCommands pre @ dirCommands dir, Inl e, w3)"
proof -
  have cp: "cp = allCommands pre" using installDirs_prefix[OF p] by simp
  have c1: "c1 = [Exec ''npm install'' (Some dir)]" using runCommand_npm[of E dir w1] n by simp
  have c2: "c2 = [Exec ''npx tsc'' (Some dir)]" using runCommand_npx[of E dir w2] x by simp
  have "installDirs E (dir # post) w1 = (c1 @ c2, Inl e, w3)" using n x by simp
  with installDirs_append[OF p, of "dir # post"] cp c1 c2 show ?thesis
    by (simp add: dirCommands_def)
qed

lemma installDirs_all_ok:
  "(\<forall>d\<in>set dirs. \<forall>v. exitsZero E ''npm install'' d v \<and> exitsZero E ''npx tsc'' d v) \<Longrightarrow>
     \<exists>w'. installDirs E dirs w = (allCommands dirs, Inr (), w')"
proof (induction dirs arbitrary: w)
  case Nil
  then show ?case by (simp add: allCommands_def)
next
  case (Cons dir dirs)
  have "exitsZero E (joinWith '' '' [''npm'', ''install'']) dir w" using Cons.prems by simp
  from runCommand_ok[OF this] obtain w1 where
    n: "runCommand E ''npm'' [''install''] dir w = ([Exec ''npm install'' (Some dir)], Inr (), w1)"
    by auto
  have "exitsZero E (joinWith '' '' [''npx'', ''tsc'']) dir w1" using Cons.prems by simp
  from runCommand_ok[OF this] obtain w2 where
    x: "runCommand E ''npx'' [''tsc''] dir w1 = ([Exec ''npx tsc'' (Some dir)], Inr (), w2)"
    by auto
  from Cons.IH[of w2] Cons.prems obtain w3 where
    rest: "installDirs E dirs w2 = (allCommands dirs, Inr (), w3)"
    by auto
  have "installDirs E (dir # dirs) w = (dirCommands dir @ allCommands dirs, Inr (), w3)"
    using installDirs_step[OF n x, of dirs] rest by simp
  then show ?case by (auto simp: allCommands_def)
qed

lemma xfind_bad:
  "findPackageDirs xenv xw0 ''/bad/javascript'' = Inr [''/bad/javascript/a'', ''/bad/javascript/b'']"
  by (simp add: findPackageDirs_def xenv_def xw0_def posix_join_def posix_normalize_def
      posix_isAbsolute_def normalizeString_def)

lemma xrun_bad:
  "runCommand xenv ''npm'' [''install''] ''/bad/javascript/a'' xw0 =
     ([Exec ''npm install'' (Some ''/bad/javascript/a'')],
      Inl (newError (''npm install failed with code 1'' @ [CHR 0x0A] @ ''npm ERR!'')), xw0)"
  by (simp add: runCommand_def execute_def execCallback_def xenv_def showInt_def showNat.simps)

lemma xrun_tsc_bad:
  "runCommand xenv ''npm'' [''install''] ''/bad/javascript/c'' xw0 =
     ([Exec ''npm install'' (Some ''/bad/javascript/c'')], Inr (), xw0)"
  "runCommand xenv ''npx'' [''tsc''] ''/bad/javascript/c'' xw0 =
     ([Exec ''npx tsc'' (Some ''/bad/javascript/c'')],
      Inl (newError (''npx tsc failed with code 2'' @ [CHR 0x0A])), xw0)"
  by (simp_all add: runCommand_def execute_def execCallback_def xenv_def showInt_def showNat.simps)

lemma xrun_gone:
  "runCommand xenv ''npm'' [''install''] ''/gone'' xw0 =
     ([Exec ''npm install'' (Some ''/gone'')],
      Inl (newError (''npm install failed with code ENOENT'' @ [CHR 0x0A])), xw0)"
  by (simp add: runCommand_def execute_def execCallback_def xenv_def)

lemma xexits_zero:
  "\<forall>d\<in>set [''/proj/javascript/app'', ''/bad/javascript/b''].
     \<forall>v. exitsZero xenv ''npm install'' d v \<and> exitsZero xenv ''npx tsc'' d v"
  by (simp add: exitsZero_def execute_def execCallback_def xenv_def)

text \<open>
  C2 as stated fails: of two package directories, a failing install in the first leaves
  the second untouched.
\<close>

theorem installAndBuild_skips_sibling_after_failure:
  "findPackageDirs xenv xw0 ''/bad/javascript'' = Inr [''/bad/javascript/a'', ''/bad/javascript/b'']
   \<and> installAndBuild xenv ''/bad'' xw0 =
       ([Exec ''npm install'' (Some ''/bad/javascript/a'')],
        Inl (newError (''npm install failed with code 1'' @ [CHR 0x0A] @ ''npm ERR!'')), xw0)
   \<and> Exec ''npm install'' (Some ''/bad/javascript/b'') \<notin> set (fst (installAndBuild xenv ''/bad'' xw0))"
  by (simp add: installAndBuild_def xfind_bad xrun_bad)

text \<open>
  C2, amended. The package directories (those found under the \<^verbatim>\<open>javascript\<close>
  directory of the sub-project) are processed one after another in discovery order,
  \<^verbatim>\<open>npm install\<close> then \<^verbatim>\<open>npx tsc\<close> in each. A command fails exactly when it does
  not come back with exit code 0. The first command that fails ends the processing: the
  commands issued are those of the directories before, then the failing directory's
  commands up to the failing one, and nothing is attempted in the directories after it;
  the failure aborts the registration with that error. A directory whose two commands
  succeed is followed by the next directory; when every command in every directory
  exits with code 0, every directory has had both commands and the processing succeeds.

  In the order of the statement: the commands issued are always a prefix of all
  commands; a successful run has issued all of them; a failing install; a failing
  build; a succeeding directory; the run when every command exits with 0; when a
  command fails; the aborted registration; where the directories come from.
\<close>

theorem installAndBuild_stops_at_first_failure:
  "prefix (fst (installDirs E dirs w)) (allCommands dirs)
   \<and> (fst (snd (installDirs E dirs w)) = Inr () \<longrightarrow> fst (installDirs E dirs w) = allCommands dirs)
   \<and> (installDirs E pre w = (cp, Inr (), w1)
        \<and> runCommand E ''npm'' [''install''] dir w1 = (c1, Inl e, w2)
      \<longrightarrow> installDirs E (pre @ dir # post) w
            = (allCommands pre @ [Exec ''npm install'' (Some dir)], Inl e, w2))
   \<and> (installDirs E pre w = (cp, Inr (), w1)
        \<and> runCommand E ''npm'' [''install''] dir w1 = (c1, Inr u, w2)
        \<and> runCommand E ''npx'' [''tsc''] dir w2 = (c2, Inl e, w3)
      \<longrightarrow> installDirs E (pre @ dir # post) w = (allCommands pre @ dirCommands dir, Inl e, w3))
   \<and> (runCommand E ''npm'' [''install''] dir w = (c1, Inr u, w1)
        \<and> runCommand E ''npx'' [''tsc''] dir w1 = (c2, Inr u2, w2)
      \<longrightarrow> installDirs E (dir # post) w
            = (case installDirs E post w2 of (cs, r, w4) \<Rightarrow> (dirCommands dir @ cs, r, w4)))
   \<and> ((\<forall>d\<in>set dirs. \<forall>v. exitsZero E ''npm install'' d v \<and> exitsZero E ''npx tsc'' d v)
      \<longrightarrow> fst (installDirs E dirs w) = allCommands dirs
          \<and> fst (snd (installDirs E dirs w)) = Inr ())
   \<and> ((\<exists>x. fst (snd (runCommand E cmd args cwd w)) = Inl x)
        = (\<not> exitsZero E (joinWith '' '' (cmd # args)) cwd w))
   \<and> (ctrl_start E ''registerSubProj'' [path] w = (Inr ret, w1) \<and> installAndBuild E path w1 = (ci, Inl e, w2)
        \<longrightarrow> registerSubProject E path config w = (CtrlStart ''registerSubProj'' [path] # ci, Inl e, w2))
   \<and> installAndBuild E path w =
        (case findPackageDirs E w (path @ ''/javascript'') of
           Inl x \<Rightarrow> ([], Inl x, w)
         | Inr found \<Rightarrow> installDirs E found w)"
proof -
  obtain cs r w' where run: "installDirs E dirs w = (cs, r, w')" by (metis prod_cases3)
  have a: "prefix (fst (installDirs E dirs w)) (allCommands dirs)"
    and b: "fst (snd (installDirs E dirs w)) = Inr () \<longrightarrow> fst (installDirs E dirs w) = allCommands dirs"
    using installDirs_prefix[OF run] run by simp_all
  have c: "installDirs E pre w = (cp, Inr (), w1)
        \<and> runCommand E ''npm'' [''install''] dir w1 = (c1, Inl e, w2)
      \<longrightarrow> installDirs E (pre @ dir # post) w
            = (allCommands pre @ [Exec ''npm install'' (Some dir)], Inl e, w2)"
  proof (intro impI, elim conjE)
    assume p: "installDirs E pre w = (cp, Inr (), w1)"
      and n: "runCommand E ''npm'' [''install''] dir w1 = (c1, Inl e, w2)"
    show "installDirs E (pre @ dir # post) w
            = (allCommands pre @ [Exec ''npm install'' (Some dir)], Inl e, w2)"
      by (rule installDirs_install_fails[OF p n])
  qed
  have d: "installDirs E pre w = (cp, Inr (), w1)
        \<and> runCommand E ''npm'' [''install''] dir w1 = (c1, Inr u, w2)
        \<and> runCommand E ''npx'' [''tsc''] dir w2 = (c2, Inl e, w3)
      \<longrightarrow> installDirs E (pre @ dir # post) w = (allCommands pre @ dirCommands dir, Inl e, w3)"
  proof (intro impI, elim conjE)
    assume p: "installDirs E pre w = (cp, Inr (), w1)"
      and n: "runCommand E ''npm'' [''install''] dir w1 = (c1, Inr u, w2)"
      and x: "runCommand E ''npx'' [''tsc''] dir w2 = (c2, Inl e, w3)"
    show "installDirs E (pre @ dir # post) w = (allCommands pre @ dirCommands dir, Inl e, w3)"
      by (rule installDirs_build_fails[OF p n x])
  qed
  have s: "runCommand E ''npm'' [''install''] dir w = (c1, Inr u, w1)
        \<and> runCommand E ''npx'' [''tsc''] dir w1 = (c2, Inr u2, w2)
      \<longrightarrow> installDirs E (dir # post) w
            = (case installDirs E post w2 of (cs, r, w4) \<Rightarrow> (dirCommands dir @ cs, r, w4))"
  proof (intro impI, elim conjE)
    assume n: "runCommand E ''npm'' [''install''] dir w = (c1, Inr u, w1)"
      and x: "runCommand E ''npx'' [''tsc''] dir w1 = (c2, Inr u2, w2)"
    show "installDirs E (dir # post) w
            = (case installDirs E post w2 of (cs, r, w4) \<Rightarrow> (dirCommands dir @ cs, r, w4))"
      by (rule installDirs_step[OF n x])
  qed
  have z: "(\<forall>d\<in>set dirs. \<forall>v. exitsZero E ''npm install'' d v \<and> exitsZero E ''npx tsc'' d v)
      \<longrightarrow> fst (installDirs E dirs w) = allCommands dirs
          \<and> fst (snd (installDirs E dirs w)) = Inr ()"
  proof
    assume "\<forall>d\<in>set dirs. \<forall>v. exitsZero E ''npm install'' d v \<and> exitsZero E ''npx tsc'' d v"
    from installDirs_all_ok[OF this, of w] obtain w4 where
      "installDirs E dirs w = (allCommands dirs, Inr (), w4)" by blast
    then show "fst (installDirs E dirs w) = allCommands dirs
          \<and> fst (snd (installDirs E dirs w)) = Inr ()" by simp
  qed
  have f: "(\<exists>x. fst (snd (runCommand E cmd args cwd w)) = Inl x)
        = (\<not> exitsZero E (joinWith '' '' (cmd # args)) cwd w)"
    by (rule runCommand_fails_iff)
  have g: "ctrl_start E ''registerSubProj'' [path] w = (Inr ret, w1) \<and> installAndBuild E path w1 = (ci, Inl e, w2)
        \<longrightarrow> registerSubProject E path config w = (CtrlStart ''registerSubProj'' [path] # ci, Inl e, w2)"
    by (simp add: registerSubProject_def)
  have h: "installAndBuild E path w =
        (case findPackageDirs E w (path @ ''/javascript'') of
           Inl x \<Rightarrow> ([], Inl x, w)
         | Inr found \<Rightarrow> installDirs E found w)"
    by (simp add: installAndBuild_def)
  from a b c d s z f g h show ?thesis by blast
qed

theorem installAndBuild_stops_at_first_failure_witness:
  "installDirs xenv [''/proj/javascript/app'', ''/bad/javascript/a'', ''/bad/javascript/b''] xw0 =
       ([Exec ''npm install'' (Some ''/proj/javascript/app''),
         Exec ''npx tsc'' (Some ''/proj/javascript/app''),
         Exec ''npm install'' (Some ''/bad/javascript/a'')],
        Inl (newError (''npm install failed with code 1'' @ [CHR 0x0A] @ ''npm ERR!'')), xw0)
   \<and> installDirs xenv [''/proj/javascript/app'', ''/bad/javascript/c'', ''/bad/javascript/b''] xw0 =
       ([Exec ''npm install'' (Some ''/proj/javascript/app''),
         Exec ''npx tsc'' (Some ''/proj/javascript/app''),
         Exec ''npm install'' (Some ''/bad/javascript/c''),
         Exec ''npx tsc'' (Some ''/bad/javascript/c'')],
        Inl (newError (''npx tsc failed with code 2'' @ [CHR 0x0A])), xw0)
   \<and> fst (installDirs xenv [''/proj/javascript/app'', ''/bad/javascript/b''] xw0) =
       [Exec ''npm install'' (Some ''/proj/javascript/app''),
        Exec ''npx tsc'' (Some ''/proj/javascript/app''),
        Exec ''npm install'' (Some ''/bad/javascript/b''),
        Exec ''npx tsc'' (Some ''/bad/javascript/b'')]
   \<and> fst (snd (installDirs xenv [''/proj/javascript/app'', ''/bad/javascript/b''] xw0)) = Inr ()
   \<and> (\<exists>x. fst (snd (runCommand xenv ''npm'' [''install''] ''/gone'' xw0)) = Inl x)
   \<and> runCommand xenv ''npm'' [''install''] ''/gone'' xw0 =
       ([Exec ''npm install'' (Some ''/gone'')],
        Inl (newError (''npm install failed with code ENOENT'' @ [CHR 0x0A])), xw0)
   \<and> registerSubProject xenv ''/bad'' (xconfig [xmanager ''pmon'']) xw0 =
       ([CtrlStart ''registerSubProj'' [''/bad''], Exec ''npm install'' (Some ''/bad/javascript/a'')],
        Inl (newError (''npm install failed with code 1'' @ [CHR 0x0A] @ ''npm ERR!'')), xw0)"
proof -
  let ?e = "newError (''npm install failed with code 1'' @ [CHR 0x0A] @ ''npm ERR!'')"
  let ?e2 = "newError (''npx tsc failed with code 2'' @ [CHR 0x0A])"
  have app: "installDirs xenv [''/proj/javascript/app''] xw0 = (allCommands [''/proj/javascript/app''], Inr (), xw0)"
    by (simp add: xrun_ok allCommands_def dirCommands_def)
  have reg: "ctrl_start xenv ''registerSubProj'' [''/bad''] xw0 = (Inr (JNum 0), xw0)"
    by (simp add: xenv_def)
  have inst: "installAndBuild xenv ''/bad'' xw0 = ([Exec ''npm install'' (Some ''/bad/javascript/a'')], Inl ?e, xw0)"
    by (simp add: installAndBuild_def xfind_bad xrun_bad)
  have gone: "\<not> exitsZero xenv (joinWith '' '' [''npm'', ''install'']) ''/gone'' xw0"
    by (simp add: exitsZero_def execute_def execCallback_def xenv_def)
  have 1: "installDirs xenv [''/proj/javascript/app'', ''/bad/javascript/a'', ''/bad/javascript/b''] xw0 =
       (allCommands [''/proj/javascript/app''] @ [Exec ''npm install'' (Some ''/bad/javascript/a'')], Inl ?e, xw0)"
    using installAndBuild_stops_at_first_failure[where E = xenv and w = xw0
        and pre = "[''/proj/javascript/app'']" and cp = "allCommands [''/proj/javascript/app'']"
        and ?w1.0 = xw0 and dir = "''/bad/javascript/a''"
        and ?c1.0 = "[Exec ''npm install'' (Some ''/bad/javascript/a'')]" and e = ?e and ?w2.0 = xw0
        and post = "[''/bad/javascript/b'']"]
      app xrun_bad
    by simp
  have 2: "installDirs xenv [''/proj/javascript/app'', ''/bad/javascript/c'', ''/bad/javascript/b''] xw0 =
       (allCommands [''/proj/javascript/app''] @ dirCommands ''/bad/javascript/c'', Inl ?e2, xw0)"
    using installAndBuild_stops_at_first_failure[where E = xenv and w = xw0
        and pre = "[''/proj/javascript/app'']" and cp = "allCommands [''/proj/javascript/app'']"
        and ?w1.0 = xw0 and dir = "''/bad/javascript/c''"
        and ?c1.0 = "[Exec ''npm install'' (Some ''/bad/javascript/c'')]" and u = "()" and ?w2.0 = xw0
        and ?c2.0 = "[Exec ''npx tsc'' (Some ''/bad/javascript/c'')]" and e = ?e2 and ?w3.0 = xw0
        and post = "[''/bad/javascript/b'']"]
      app xrun_tsc_bad
    by simp
  have 3: "fst (installDirs xenv [''/proj/javascript/app'', ''/bad/javascript/b''] xw0)
             = allCommands [''/proj/javascript/app'', ''/bad/javascript/b'']
         \<and> fst (snd (installDirs xenv [''/proj/javascript/app'', ''/bad/javascript/b''] xw0)) = Inr ()"
    using installAndBuild_stops_at_first_failure[where E = xenv and w = xw0
        and dirs = "[''/proj/javascript/app'', ''/bad/javascript/b'']"]
      xexits_zero
    by blast
  have 4: "\<exists>x. fst (snd (runCommand xenv ''npm'' [''install''] ''/gone'' xw0)) = Inl x"
    using installAndBuild_stops_at_first_failure[where E = xenv and w = xw0
        and cmd = "''npm''" and args = "[''install'']" and cwd = "''/gone''"]
      gone
    by blast
  have 5: "registerSubProject xenv ''/bad'' (xconfig [xmanager ''pmon'']) xw0 =
       ([CtrlStart ''registerSubProj'' [''/bad''], Exec ''npm install'' (Some ''/bad/javascript/a'')], Inl ?e, xw0)"
    using installAndBuild_stops_at_first_failure[where E = xenv and w = xw0 and ?w1.0 = xw0
        and ?w2.0 = xw0 and path = "''/bad''" and ret = "JNum 0" and e = ?e
        and ci = "[Exec ''npm install'' (Some ''/bad/javascript/a'')]"
        and config = "xconfig [xmanager ''pmon'']"]
      reg inst
    by blast
  from 1 2 3 4 5 xrun_gone show ?thesis by (simp add: allCommands_def dirCommands_def)
qed


subsection \<open>C3: classification is total and three-way\<close>

text \<open>
  C3. For every integer exit code \<open>e\<close>, success list \<open>S\<close> and warning list \<open>W\<close>, the
  classification is exactly one of Success, Warning, Error: it is Success exactly when
  \<open>e\<close> is in \<open>S\<close>, Warning exactly when \<open>e\<close> is in \<open>W\<close> and not in \<open>S\<close>, and Error
  exactly when \<open>e\<close> is in neither. With \<open>S = [0]\<close> and \<open>W = [55]\<close>, the constants of
  the source, 0 is a Success, 55 a Warning and 1 an Error.
\<close>

theorem classify_three_way:
  "((classify e S W = Success) = (e \<in> set S))
   \<and> ((classify e S W = Warning) = (e \<in> set W \<and> e \<notin> set S))
   \<and> ((classify e S W = Error) = (e \<notin> set S \<and> e \<notin> set W))
   \<and> classify 0 [0] [55] = Success
   \<and> classify 55 [0] [55] = Warning
   \<and> classify 1 [0] [55] = Error
   \<and> classifyImport 0 = Success
   \<and> classifyImport 55 = Warning
   \<and> classifyImport 1 = Error"
  by (simp add: classify_def classifyImport_def arrayIncludes_def
      SUCCESS_EXIT_CODES_def WARNING_EXIT_CODES_def)


subsection \<open>C4: the decision tree of the target path\<close>

lemma resolveTarget_given:
  "given targetDirectory \<Longrightarrow>
     resolveTarget E w url targetDirectory = resolveAt E w url (absoluteHint E (the targetDirectory))"
  by (simp add: resolveTarget_def absoluteHint_def Let_def)

lemma xdemo: "extractRepoNameFromUrl xenv xw0 ''https://example/org/demo.git'' = ''demo''"
  by (simp add: extractRepoNameFromUrl_def tailMatches_def)

lemma xjoin_git:
  "path_join xenv [''/existing/plainDir'', ''.git''] = ''/existing/plainDir/.git''"
  "path_join xenv [''/existing/repo'', ''.git''] = ''/existing/repo/.git''"
  "path_join xenv [''/existing/plainDir'', ''demo''] = ''/existing/plainDir/demo''"
  "path_join xenv [''/work'', ''.git''] = ''/work/.git''"
  by (simp_all add: xenv_def posix_join_def posix_normalize_def posix_isAbsolute_def normalizeString_def)

lemma xabs:
  "absoluteHint xenv ''/existing/plainDir'' = ''/existing/plainDir''"
  "absoluteHint xenv ''/existing/repo'' = ''/existing/repo''"
  "absoluteHint xenv ''clones/demo'' = ''/work/clones/demo''"
  "absoluteHint xenv [] = ''/work''"
  by (simp_all add: absoluteHint_def xenv_def posix_isAbsolute_def posix_resolve_def normalizeString_def)

lemma xdisk:
  "fs_existsSync xenv xw0 ''/existing/plainDir''"
  "fs_isDirectory xenv xw0 ''/existing/plainDir''"
  "\<not> fs_existsSync xenv xw0 ''/existing/plainDir/.git''"
  "fs_existsSync xenv xw0 ''/existing/repo''"
  "fs_isDirectory xenv xw0 ''/existing/repo''"
  "fs_existsSync xenv xw0 ''/existing/repo/.git''"
  "\<not> fs_existsSync xenv xw0 ''/work/clones/demo''"
  "fs_existsSync xenv xw0 ''/work''"
  "fs_isDirectory xenv xw0 ''/work''"
  "fs_existsSync xenv xw0 ''/work/.git''"
  by (simp_all add: xenv_def xw0_def)

text \<open>
  C4 as stated fails for the empty string as hint. Made absolute it is the working
  directory, here an existing directory with a \<^verbatim>\<open>.git\<close> entry, so the tree would
  answer with the working directory and its basename (\<^verbatim>\<open>/work\<close> and \<^verbatim>\<open>work\<close>); the
  code takes an empty \<^verbatim>\<open>targetDirectory\<close> for no hint at all and answers with the
  URL's name under the default directory.
\<close>

theorem resolveTarget_empty_hint_is_no_hint:
  "resolveTarget xenv xw0 ''https://example/org/demo.git'' (Some []) = (''/work/demo'', ''demo'')
   \<and> absoluteHint xenv [] = ''/work''
   \<and> fs_existsSync xenv xw0 ''/work''
   \<and> fs_isDirectory xenv xw0 ''/work''
   \<and> fs_existsSync xenv xw0 (path_join xenv [''/work'', ''.git''])
   \<and> path_basename xenv ''/work'' = ''work''
   \<and> resolveTarget xenv xw0 ''https://example/org/demo.git'' (Some [])
       \<noteq> (absoluteHint xenv [], path_basename xenv (absoluteHint xenv []))"
proof -
  have "path_resolve xenv [defaultDirectory xenv, ''demo''] = ''/work/demo''"
    by (simp add: xenv_def posix_resolve_def posix_isAbsolute_def normalizeString_def)
  then have "resolveTarget xenv xw0 ''https://example/org/demo.git'' (Some []) = (''/work/demo'', ''demo'')"
    by (simp add: resolveTarget_def given_def xdemo Let_def)
  moreover have "path_basename xenv ''/work'' = ''work''"
    by (simp add: xenv_def posix_basename_def)
  ultimately show ?thesis by (simp add: xabs xdisk xjoin_git)
qed

text \<open>
  C4, amended. For every URL and every non-empty hint, with the hint made absolute (itself
  when absolute, else resolved against the working directory):
  \<^item> if it exists and is a directory that has a \<^verbatim>\<open>.git\<close> entry, the full path is the
    hint and the name its basename;
  \<^item> if it exists and is a directory without that entry, the name is extracted from the
    URL and the full path is the hint joined with the name;
  \<^item> if it does not exist or is not a directory, the full path is the hint and the name
    its basename.

  An empty hint counts as no hint: the name is extracted from the URL and the full path
  is that name resolved against the default directory.
\<close>

theorem resolveTarget_decision_tree:
  assumes "hint = absoluteHint E (the targetDirectory)"
    and "name = extractRepoNameFromUrl E w url"
  shows "(given targetDirectory \<and> fs_existsSync E w hint \<and> fs_isDirectory E w hint
            \<and> fs_existsSync E w (path_join E [hint, ''.git''])
          \<longrightarrow> resolveTarget E w url targetDirectory = (hint, path_basename E hint))
       \<and> (given targetDirectory \<and> fs_existsSync E w hint \<and> fs_isDirectory E w hint
            \<and> \<not> fs_existsSync E w (path_join E [hint, ''.git''])
          \<longrightarrow> resolveTarget E w url targetDirectory = (path_join E [hint, name], name))
       \<and> (given targetDirectory \<and> \<not> (fs_existsSync E w hint \<and> fs_isDirectory E w hint)
          \<longrightarrow> resolveTarget E w url targetDirectory = (hint, path_basename E hint))
       \<and> (\<not> given targetDirectory
          \<longrightarrow> resolveTarget E w url targetDirectory = (path_resolve E [defaultDirectory E, name], name))
       \<and> given (Some h) = (h \<noteq> [])"
proof -
  have a: "given targetDirectory \<Longrightarrow>
             resolveTarget E w url targetDirectory = resolveAt E w url hint"
    using assms(1) by (simp add: resolveTarget_given)
  have b: "\<not> given targetDirectory \<Longrightarrow>
             resolveTarget E w url targetDirectory = (path_resolve E [defaultDirectory E, name], name)"
    using assms(2) by (simp add: resolveTarget_def Let_def)
  have c: "given (Some h) = (h \<noteq> [])" by (simp add: given_def)
  from a b c show ?thesis using assms(2) by (auto simp: resolveAt_def Let_def)
qed

theorem resolveTarget_decision_tree_witness:
  "resolveTarget xenv xw0 ''https://example/org/demo.git'' (Some ''/existing/plainDir'')
     = (''/existing/plainDir/demo'', ''demo'')
   \<and> resolveTarget xenv xw0 ''https://example/org/demo.git'' (Some ''/existing/repo'')
     = (''/existing/repo'', ''repo'')
   \<and> resolveTarget xenv xw0 ''https://example/org/demo.git'' (Some ''clones/demo'')
     = (''/work/clones/demo'', ''demo'')"
proof -
  have g: "given (Some ''/existing/plainDir'')" "given (Some ''/existing/repo'')" "given (Some ''clones/demo'')"
    by (simp_all add: given_def)
  have b: "path_basename xenv ''/existing/repo'' = ''repo''" "path_basename xenv ''/work/clones/demo'' = ''demo''"
    by (simp_all add: xenv_def posix_basename_def)
  have 1: "resolveTarget xenv xw0 ''https://example/org/demo.git'' (Some ''/existing/plainDir'')
     = (''/existing/plainDir/demo'', ''demo'')"
    using resolveTarget_decision_tree[where E = xenv and w = xw0 and url = "''https://example/org/demo.git''"
        and targetDirectory = "Some ''/existing/plainDir''", OF refl refl] g(1)
    by (simp add: xabs xjoin_git xdisk xdemo)
  have 2: "resolveTarget xenv xw0 ''https://example/org/demo.git'' (Some ''/existing/repo'')
     = (''/existing/repo'', ''repo'')"
    using resolveTarget_decision_tree[where E = xenv and w = xw0 and url = "''https://example/org/demo.git''"
        and targetDirectory = "Some ''/existing/repo''", OF refl refl] g(2)
    by (simp add: xabs xjoin_git xdisk b)
  have 3: "resolveTarget xenv xw0 ''https://example/org/demo.git'' (Some ''clones/demo'')
     = (''/work/clones/demo'', ''demo'')"
    using resolveTarget_decision_tree[where E = xenv and w = xw0 and url = "''https://example/org/demo.git''"
        and targetDirectory = "Some ''clones/demo''", OF refl refl] g(3)
    by (simp add: xabs xdisk b)
  from 1 2 3 show ?thesis by blast
qed


subsection \<open>C5: pull an existing copy, clone a missing one\<close>

lemma cloneRepository_existing:
  assumes "resolveTarget E w url targetDirectory = (fullPath, repoName)"
    and "fs_existsSync E w fullPath"
  shows "cloneRepository E url targetDirectory branch w =
           (case git_pull E fullPath w of
              (Inl e, w1) \<Rightarrow> ([GitPull fullPath], Inl (cloneError E w1 url targetDirectory e), w1)
            | (Inr pullResult, w1) \<Rightarrow>
                ([GitPull fullPath, ConsoleLog (pullSummaryLine pullResult)],
                 Inr (fullPath, readWinCCOAPackageJson E w1 fullPath), w1))"
  using assms
  by (simp add: cloneRepository_def cloneBody_def pullLatest_def split: prod.splits sum.splits)

lemma cloneRepository_fresh:
  assumes "resolveTarget E w url targetDirectory = (fullPath, repoName)"
    and "\<not> fs_existsSync E w fullPath"
    and "parentDir = path_dirname E fullPath"
    and "if fs_existsSync E w parentDir then wm = w else fs_mkdirSync E parentDir w = (Inr (), wm)"
    and "git_clone E parentDir url repoName (cloneOptions branch) wm = (Inr (), wc)"
    and "git_pull E fullPath wc = (Inr pullResult, wp)"
  shows "cloneRepository E url targetDirectory branch w =
           ((if fs_existsSync E w parentDir then [] else [MkdirRecursive parentDir])
              @ [GitClone parentDir url repoName (cloneOptions branch),
                 GitPull fullPath, ConsoleLog (pullSummaryLine pullResult)],
            Inr (fullPath, readWinCCOAPackageJson E wp fullPath), wp)"
  using assms
  by (auto simp: cloneRepository_def cloneBody_def pullLatest_def Let_def split: if_splits)

lemma xresolve_addon:
  "resolveTarget xenv xw0 ''https://example/org/demo.git'' (Some ''/existing/addon'')
     = (''/existing/addon'', ''addon'')"
  by (simp add: resolveTarget_def resolveAt_def given_def Let_def xenv_def xw0_def
      posix_isAbsolute_def posix_join_def posix_normalize_def normalizeString_def posix_basename_def)

lemma xresolve_repo:
  "resolveTarget xenv xw0 ''https://example/org/demo.git'' (Some ''/existing/repo'')
     = (''/existing/repo'', ''repo'')"
  by (simp add: resolveTarget_def resolveAt_def given_def Let_def xenv_def xw0_def
      posix_isAbsolute_def posix_join_def posix_normalize_def normalizeString_def posix_basename_def)

lemma xresolve_new:
  "resolveTarget xenv xw0 ''https://example/org/demo.git'' (Some ''/data/new/demo'')
     = (''/data/new/demo'', ''demo'')"
  by (simp add: resolveTarget_def resolveAt_def given_def Let_def xenv_def xw0_def
      posix_isAbsolute_def posix_basename_def)

lemma xmanifest_path:
  "path_join xenv [''/existing/addon'', ''package.winccoa.json''] = ''/existing/addon/package.winccoa.json''"
  by (simp add: xenv_def posix_join_def posix_normalize_def posix_isAbsolute_def normalizeString_def)

lemma xpull:
  "git_pull xenv ''/existing/addon'' xw0
     = (Inr \<lparr> summary = \<lparr> changes = 0, insertions = 0, deletions = 0 \<rparr>, files = [] \<rparr>, xw0)"
  by (simp add: xenv_def xw0_def)

lemma xpull_repo:
  "git_pull xenv ''/existing/repo'' xw0
     = (Inr \<lparr> summary = \<lparr> changes = 3, insertions = 10, deletions = 2 \<rparr>,
              files = [''README.md'', ''src/a.ts'', ''src/b.ts''] \<rparr>, xw0)"
  by (simp add: xenv_def xw0_def)

lemma xmanifests:
  "readWinCCOAPackageJson xenv xw0 ''/existing/addon'' = None"
  "readWinCCOAPackageJson xenv xw0 ''/existing/repo'' = Some ''{}''"
  by (simp_all add: readWinCCOAPackageJson_def xenv_def xw0_def posix_join_def posix_normalize_def
      posix_isAbsolute_def normalizeString_def)

lemma xlines:
  "pullSummaryLine \<lparr> summary = \<lparr> changes = 0, insertions = 0, deletions = 0 \<rparr>, files = [] \<rparr>
     = ''Repository is already up to date''"
  "pullSummaryLine \<lparr> summary = \<lparr> changes = 3, insertions = 10, deletions = 2 \<rparr>,
                      files = [''README.md'', ''src/a.ts'', ''src/b.ts''] \<rparr>
     = ''Pull completed: 3 changes, 10 insertions, 2 deletions''"
  by (simp_all add: pullSummaryLine_def showInt_def showNat.simps)

text \<open>
  C5 as stated fails where it says that the change statistics of the pull are
  reported. The operation returns
  the path and the manifest content and nothing else (its declared result is
  \<^verbatim>\<open>{ path, fileContent }\<close>): what the pull changed is in no value the caller gets. The
  figures go to the console only, and only when the pull's change count is not zero. In
  \<^verbatim>\<open>/existing/addon\<close> the pull brings nothing: the one line written is that the
  repository is up to date, and no figure. In \<^verbatim>\<open>/existing/repo\<close> the pull changes 3
  files with 10 insertions and 2 deletions: the line on the console has the three
  figures, and the value returned is again the path and the manifest only.
\<close>

theorem cloneRepository_returns_no_statistics:
  "cloneRepository xenv ''https://example/org/demo.git'' (Some ''/existing/addon'') None xw0 =
     ([GitPull ''/existing/addon'', ConsoleLog ''Repository is already up to date''],
      Inr (''/existing/addon'', None), xw0)
   \<and> ConsoleLog ''Pull completed: 0 changes, 0 insertions, 0 deletions''
        \<notin> set (fst (cloneRepository xenv ''https://example/org/demo.git'' (Some ''/existing/addon'') None xw0))
   \<and> fst (git_pull xenv ''/existing/repo'' xw0)
       = Inr \<lparr> summary = \<lparr> changes = 3, insertions = 10, deletions = 2 \<rparr>,
                files = [''README.md'', ''src/a.ts'', ''src/b.ts''] \<rparr>
   \<and> cloneRepository xenv ''https://example/org/demo.git'' (Some ''/existing/repo'') None xw0 =
     ([GitPull ''/existing/repo'', ConsoleLog ''Pull completed: 3 changes, 10 insertions, 2 deletions''],
      Inr (''/existing/repo'', Some ''{}''), xw0)"
proof -
  have ex: "fs_existsSync xenv xw0 ''/existing/addon''" "fs_existsSync xenv xw0 ''/existing/repo''"
    by (simp_all add: xenv_def xw0_def)
  have 1: "cloneRepository xenv ''https://example/org/demo.git'' (Some ''/existing/addon'') None xw0 =
     ([GitPull ''/existing/addon'', ConsoleLog ''Repository is already up to date''],
      Inr (''/existing/addon'', None), xw0)"
    by (simp add: cloneRepository_existing[OF xresolve_addon ex(1)] xpull xlines xmanifests)
  have 2: "cloneRepository xenv ''https://example/org/demo.git'' (Some ''/existing/repo'') None xw0 =
     ([GitPull ''/existing/repo'', ConsoleLog ''Pull completed: 3 changes, 10 insertions, 2 deletions''],
      Inr (''/existing/repo'', Some ''{}''), xw0)"
    by (simp add: cloneRepository_existing[OF xresolve_repo ex(2)] xpull_repo xlines xmanifests)
  from 1 2 show ?thesis by (simp add: xpull_repo)
qed

text \<open>
  C5, amended. With \<open>fullPath\<close> and \<open>repoName\<close> the resolved target and \<open>parentDir\<close>
  the directory of \<open>fullPath\<close>:
  \<^item> if \<open>fullPath\<close> exists, the only call is a pull in \<open>fullPath\<close>; the branch makes no
    difference to anything the function does or returns;
  \<^item> if \<open>fullPath\<close> does not exist, and the steps succeed: \<open>parentDir\<close> is created
    recursively when it is missing, then the URL is cloned from \<open>parentDir\<close> into
    \<open>repoName\<close>, then a pull is made in \<open>fullPath\<close>, and only then the function
    returns;
  \<^item> the clone is given \<^verbatim>\<open>--branch b\<close> exactly when a branch \<open>b\<close> is supplied (a
    non-empty \<^verbatim>\<open>branch\<close>: the source tests \<^verbatim>\<open>if (branch)\<close>);
  \<^item> after a pull that succeeds, one line is written to the console: when the pull's
    change count is not zero, the line with the figures of the pull (changes,
    insertions, deletions); when it is zero, the line saying that the repository is up
    to date;
  \<^item> the value returned after a pull that succeeds is the full path and the content of
    the manifest, whatever the pull changed: the statistics are not part of it.
\<close>

theorem cloneRepository_pull_or_clone:
  assumes "resolveTarget E w url targetDirectory = (fullPath, repoName)"
    and "parentDir = path_dirname E fullPath"
  shows "(fs_existsSync E w fullPath \<longrightarrow>
            cloneRepository E url targetDirectory branch w
              = cloneRepository E url targetDirectory None w
          \<and> fst (cloneRepository E url targetDirectory branch w)
              = GitPull fullPath #
                (case fst (git_pull E fullPath w) of
                   Inl e \<Rightarrow> []
                 | Inr pullResult \<Rightarrow> [ConsoleLog (pullSummaryLine pullResult)])
          \<and> (\<forall>pullResult w1. git_pull E fullPath w = (Inr pullResult, w1) \<longrightarrow>
                cloneRepository E url targetDirectory branch w
                  = ([GitPull fullPath, ConsoleLog (pullSummaryLine pullResult)],
                     Inr (fullPath, readWinCCOAPackageJson E w1 fullPath), w1)))
       \<and> (\<not> fs_existsSync E w fullPath \<longrightarrow>
            (\<forall>wm wc wp pullResult.
               (if fs_existsSync E w parentDir then wm = w
                else fs_mkdirSync E parentDir w = (Inr (), wm))
               \<and> git_clone E parentDir url repoName (cloneOptions branch) wm = (Inr (), wc)
               \<and> git_pull E fullPath wc = (Inr pullResult, wp)
               \<longrightarrow> cloneRepository E url targetDirectory branch w =
                     ((if fs_existsSync E w parentDir then [] else [MkdirRecursive parentDir])
                        @ [GitClone parentDir url repoName (cloneOptions branch),
                           GitPull fullPath, ConsoleLog (pullSummaryLine pullResult)],
                      Inr (fullPath, readWinCCOAPackageJson E wp fullPath), wp)))
       \<and> cloneOptions branch = (if given branch then [''--branch'', the branch] else [])
       \<and> (\<forall>c i d fs. c \<noteq> 0 \<longrightarrow>
             pullSummaryLine \<lparr> summary = \<lparr> changes = c, insertions = i, deletions = d \<rparr>, files = fs \<rparr>
               = ''Pull completed: '' @ showInt c @ '' changes, '' @ showInt i @ '' insertions, ''
                   @ showInt d @ '' deletions'')
       \<and> (\<forall>i d fs.
             pullSummaryLine \<lparr> summary = \<lparr> changes = 0, insertions = i, deletions = d \<rparr>, files = fs \<rparr>
               = ''Repository is already up to date'')"
proof -
  have a: "fs_existsSync E w fullPath \<Longrightarrow>
            cloneRepository E url targetDirectory branch w
              = cloneRepository E url targetDirectory None w"
    using assms(1) by (simp add: cloneRepository_existing)
  have b: "fs_existsSync E w fullPath \<Longrightarrow>
           fst (cloneRepository E url targetDirectory branch w)
              = GitPull fullPath #
                (case fst (git_pull E fullPath w) of
                   Inl e \<Rightarrow> []
                 | Inr pullResult \<Rightarrow> [ConsoleLog (pullSummaryLine pullResult)])"
    using assms(1) by (auto simp: cloneRepository_existing split: prod.splits sum.splits)
  have b2: "fs_existsSync E w fullPath \<Longrightarrow>
           (\<forall>pullResult w1. git_pull E fullPath w = (Inr pullResult, w1) \<longrightarrow>
                cloneRepository E url targetDirectory branch w
                  = ([GitPull fullPath, ConsoleLog (pullSummaryLine pullResult)],
                     Inr (fullPath, readWinCCOAPackageJson E w1 fullPath), w1))"
    using assms(1) by (simp add: cloneRepository_existing)
  have c: "\<not> fs_existsSync E w fullPath \<Longrightarrow>
            (\<forall>wm wc wp pullResult.
               (if fs_existsSync E w parentDir then wm = w
                else fs_mkdirSync E parentDir w = (Inr (), wm))
               \<and> git_clone E parentDir url repoName (cloneOptions branch) wm = (Inr (), wc)
               \<and> git_pull E fullPath wc = (Inr pullResult, wp)
               \<longrightarrow> cloneRepository E url targetDirectory branch w =
                     ((if fs_existsSync E w parentDir then [] else [MkdirRecursive parentDir])
                        @ [GitClone parentDir url repoName (cloneOptions branch),
                           GitPull fullPath, ConsoleLog (pullSummaryLine pullResult)],
                      Inr (fullPath, readWinCCOAPackageJson E wp fullPath), wp))"
    using cloneRepository_fresh[OF assms(1) _ assms(2)] by blast
  have d: "cloneOptions branch = (if given branch then [''--branch'', the branch] else [])"
    by (simp add: cloneOptions_def)
  have e: "\<forall>c i d fs. c \<noteq> 0 \<longrightarrow>
             pullSummaryLine \<lparr> summary = \<lparr> changes = c, insertions = i, deletions = d \<rparr>, files = fs \<rparr>
               = ''Pull completed: '' @ showInt c @ '' changes, '' @ showInt i @ '' insertions, ''
                   @ showInt d @ '' deletions''"
    by (simp add: pullSummaryLine_def)
  have f: "\<forall>i d fs.
             pullSummaryLine \<lparr> summary = \<lparr> changes = 0, insertions = i, deletions = d \<rparr>, files = fs \<rparr>
               = ''Repository is already up to date''"
    by (simp add: pullSummaryLine_def)
  from a b b2 c d e f show ?thesis by blast
qed

lemma xfresh:
  "\<not> fs_existsSync xenv xw0 ''/data/new/demo''"
  "path_dirname xenv ''/data/new/demo'' = ''/data/new''"
  "\<not> fs_existsSync xenv xw0 ''/data/new''"
  "fs_mkdirSync xenv ''/data/new'' xw0 = (Inr (), xw0\<lparr>x_dirs := ''/data/new'' # x_dirs xw0\<rparr>)"
  "git_clone xenv ''/data/new'' ''https://example/org/demo.git'' ''demo'' [''--branch'', ''main'']
       (xw0\<lparr>x_dirs := ''/data/new'' # x_dirs xw0\<rparr>)
     = (Inr (), xw0\<lparr>x_dirs := ''/data/new/demo'' # ''/data/new'' # x_dirs xw0\<rparr>)"
  "git_pull xenv ''/data/new/demo'' (xw0\<lparr>x_dirs := ''/data/new/demo'' # ''/data/new'' # x_dirs xw0\<rparr>)
     = (Inr \<lparr> summary = \<lparr> changes = 0, insertions = 0, deletions = 0 \<rparr>, files = [] \<rparr>,
        xw0\<lparr>x_dirs := ''/data/new/demo'' # ''/data/new'' # x_dirs xw0\<rparr>)"
  "readWinCCOAPackageJson xenv (xw0\<lparr>x_dirs := ''/data/new/demo'' # ''/data/new'' # x_dirs xw0\<rparr>) ''/data/new/demo'' = None"
  by (simp_all add: xenv_def xw0_def posix_dirname_def posix_isAbsolute_def posix_join_def
      posix_normalize_def normalizeString_def readWinCCOAPackageJson_def)

theorem cloneRepository_pull_or_clone_witness:
  "cloneRepository xenv ''https://example/org/demo.git'' (Some ''/data/new/demo'') (Some ''main'') xw0 =
     ([MkdirRecursive ''/data/new'',
       GitClone ''/data/new'' ''https://example/org/demo.git'' ''demo'' [''--branch'', ''main''],
       GitPull ''/data/new/demo'',
       ConsoleLog ''Repository is already up to date''],
      Inr (''/data/new/demo'', None),
      xw0\<lparr>x_dirs := ''/data/new/demo'' # ''/data/new'' # x_dirs xw0\<rparr>)
   \<and> cloneRepository xenv ''https://example/org/demo.git'' (Some ''/existing/repo'') (Some ''main'') xw0
       = ([GitPull ''/existing/repo'',
           ConsoleLog ''Pull completed: 3 changes, 10 insertions, 2 deletions''],
          Inr (''/existing/repo'', Some ''{}''), xw0)"
proof -
  have opts: "cloneOptions (Some ''main'') = [''--branch'', ''main'']"
    by (simp add: cloneOptions_def given_def)
  have 1: "cloneRepository xenv ''https://example/org/demo.git'' (Some ''/data/new/demo'') (Some ''main'') xw0 =
     ([MkdirRecursive ''/data/new'',
       GitClone ''/data/new'' ''https://example/org/demo.git'' ''demo'' [''--branch'', ''main''],
       GitPull ''/data/new/demo'',
       ConsoleLog ''Repository is already up to date''],
      Inr (''/data/new/demo'', None),
      xw0\<lparr>x_dirs := ''/data/new/demo'' # ''/data/new'' # x_dirs xw0\<rparr>)"
    using cloneRepository_pull_or_clone[where E = xenv and w = xw0 and branch = "Some ''main''",
        OF xresolve_new xfresh(2)[symmetric]] xfresh
    by (simp add: opts)
  have ex: "fs_existsSync xenv xw0 ''/existing/repo''" by (simp add: xenv_def xw0_def)
  note t = cloneRepository_pull_or_clone[where E = xenv and w = xw0 and branch = "Some ''main''",
        OF xresolve_repo refl]
  have line: "pullSummaryLine \<lparr> summary = \<lparr> changes = 3, insertions = 10, deletions = 2 \<rparr>,
                      files = [''README.md'', ''src/a.ts'', ''src/b.ts''] \<rparr>
     = ''Pull completed: '' @ showInt 3 @ '' changes, '' @ showInt 10 @ '' insertions, ''
                   @ showInt 2 @ '' deletions''"
    using t by simp
  have "cloneRepository xenv ''https://example/org/demo.git'' (Some ''/existing/repo'') (Some ''main'') xw0
       = ([GitPull ''/existing/repo'',
           ConsoleLog (pullSummaryLine \<lparr> summary = \<lparr> changes = 3, insertions = 10, deletions = 2 \<rparr>,
                      files = [''README.md'', ''src/a.ts'', ''src/b.ts''] \<rparr>)],
          Inr (''/existing/repo'', readWinCCOAPackageJson xenv xw0 ''/existing/repo''), xw0)"
    using t ex xpull_repo by blast
  then have 2: "cloneRepository xenv ''https://example/org/demo.git'' (Some ''/existing/repo'') (Some ''main'') xw0
       = ([GitPull ''/existing/repo'',
           ConsoleLog ''Pull completed: 3 changes, 10 insertions, 2 deletions''],
          Inr (''/existing/repo'', Some ''{}''), xw0)"
    by (simp add: line xmanifests showInt_def showNat.simps)
  from 1 2 show ?thesis by blast
qed


subsection \<open>C6: the repository name taken from the URL\<close>

lemma lastSegment_Cons:
  "lastSegment (c # cs) =
     (if CHR ''/'' \<in> set cs then lastSegment cs else if c = CHR ''/'' then cs else c # cs)"
  by (auto simp: lastSegment_def takeWhile_append takeWhile_eq_all_conv[THEN iffD2])

lemma lastSegment_slash: "CHR ''/'' \<notin> set cs \<Longrightarrow> lastSegment (CHR ''/'' # cs) = cs"
  by (simp add: lastSegment_Cons)

lemma stripDotGit_Cons:
  assumes "c # cs \<noteq> ''.git''"
  shows "stripDotGit (c # cs) = c # stripDotGit cs"
proof -
  have suf: "suffix ''.git'' (c # cs) = suffix ''.git'' cs"
    using assms by (auto simp: suffix_Cons)
  show ?thesis
  proof (cases "suffix ''.git'' cs")
    case False
    with suf show ?thesis by (simp add: stripDotGit_def)
  next
    case True
    then have "4 \<le> length cs" using suffix_length_le by fastforce
    then have "take (length (c # cs) - 4) (c # cs) = c # take (length cs - 4) cs"
      by (simp add: take_Cons' Suc_diff_le)
    with True suf show ?thesis by (simp add: stripDotGit_def)
  qed
qed

lemma lazyGroup_no_slash:
  "CHR ''/'' \<notin> set s \<Longrightarrow> lazyGroup g s = Some (g @ stripDotGit s)"
proof (induction s arbitrary: g)
  case Nil
  then show ?case by (simp add: tailMatches_def stripDotGit_def)
next
  case (Cons c cs)
  show ?case
  proof (cases "c # cs = ''.git''")
    case True
    then show ?thesis by (simp add: tailMatches_def stripDotGit_def)
  next
    case False
    have "stripDotGit (c # cs) = c # stripDotGit cs"
      using False by (rule stripDotGit_Cons)
    moreover have "lazyGroup g (c # cs) = lazyGroup (g @ [c]) cs"
      using False Cons.prems by (auto simp: tailMatches_def)
    ultimately show ?thesis using Cons.IH[of "g @ [c]"] Cons.prems by simp
  qed
qed

lemma lazyGroup_slash:
  "CHR ''/'' \<in> set s \<Longrightarrow> lazyGroup g s = None"
proof (induction s arbitrary: g)
  case Nil
  then show ?case by simp
next
  case (Cons c cs)
  have "c # cs \<noteq> ''.git''" using Cons.prems by auto
  then show ?case using Cons by (auto simp: tailMatches_def)
qed

lemma segmentName_Cons:
  "segmentName (d # ds) = d # stripDotGit ds"
proof (cases "d # ds = ''.git''")
  case True
  have "\<not> suffix ''.git'' ''git''" by (auto dest: suffix_length_le)
  with True show ?thesis by (simp add: segmentName_def stripDotGit_def)
next
  case False
  then show ?thesis using stripDotGit_Cons[OF False] by (auto simp: segmentName_def)
qed

lemma urlMatch_char:
  "urlMatch url =
     (if CHR ''/'' \<in> set url \<and> lastSegment url \<noteq> [] then Some (segmentName (lastSegment url))
      else None)"
proof (induction url)
  case Nil
  then show ?case by simp
next
  case (Cons c cs)
  show ?case
  proof (cases "c = CHR ''/''")
    case False
    then have "matchAt (c # cs) = None" by (cases cs) auto
    then have "urlMatch (c # cs) = urlMatch cs" by simp
    then show ?thesis using Cons.IH False by (auto simp: lastSegment_Cons)
  next
    case True
    note c = this
    show ?thesis
    proof (cases cs)
      case Nil
      then show ?thesis using c by (simp add: lastSegment_def)
    next
      case (Cons d ds)
      show ?thesis
      proof (cases "d = CHR ''/'' \<or> CHR ''/'' \<in> set ds")
        case True
        then have "matchAt (c # cs) = None" using c Cons by (auto simp: lazyGroup_slash)
        then have "urlMatch (c # cs) = urlMatch cs" by simp
        moreover have "CHR ''/'' \<in> set cs" using True Cons by auto
        ultimately show ?thesis using Cons.IH \<open>urlMatch (c # cs) = urlMatch cs\<close>
          by (simp add: lastSegment_Cons Cons.IH)
      next
        case False
        then have "matchAt (c # cs) = Some (d # stripDotGit ds)"
          using c Cons by (simp add: lazyGroup_no_slash)
        moreover have "CHR ''/'' \<notin> set cs" using False Cons by auto
        then have "lastSegment (c # cs) = d # ds"
          using c Cons lastSegment_slash[of cs] by simp
        ultimately show ?thesis using c by (simp add: segmentName_Cons)
      qed
    qed
  qed
qed


lemma segmentName_nonempty: "seg \<noteq> [] \<Longrightarrow> segmentName seg \<noteq> []"
  by (cases seg) (simp_all add: segmentName_Cons)

text \<open>
  C6 as stated fails on a URL whose last segment is \<^verbatim>\<open>.git\<close> and nothing else
  (the URL of a repository's own \<^verbatim>\<open>.git\<close> directory): the name returned is that
  segment unchanged, neither the segment with the suffix stripped (the empty string) nor
  the fallback name.
\<close>

theorem extractRepoName_keeps_lone_dot_git:
  "extractRepoNameFromUrl xenv xw0 ''https://example/org/.git'' = ''.git''
   \<and> lastSegment ''https://example/org/.git'' = ''.git''
   \<and> stripDotGit ''.git'' = []
   \<and> fallbackName xenv xw0 = ''repo-1754000000000''
   \<and> extractRepoNameFromUrl xenv xw0 ''https://example/org/.git''
       \<noteq> stripDotGit (lastSegment ''https://example/org/.git'')
   \<and> extractRepoNameFromUrl xenv xw0 ''https://example/org/.git'' \<noteq> fallbackName xenv xw0"
  by (simp add: extractRepoNameFromUrl_def tailMatches_def lastSegment_def stripDotGit_def
      fallbackName_def xenv_def xw0_def showNat.simps)

text \<open>
  C6, amended. For a URL that has a slash and does not end in one,
  \<^verbatim>\<open>extractRepoNameFromUrl\<close> returns the text after the last slash with one trailing
  \<^verbatim>\<open>.git\<close> stripped, except that a segment that is exactly \<^verbatim>\<open>.git\<close> is returned as
  it is; for every other URL (no slash at all, or a slash at the end) it returns the
  fallback name \<^verbatim>\<open>repo-\<close> followed by the clock's milliseconds. It never fails. With
  no hint given (absent, or the empty string), the URL
  \<^verbatim>\<open>https://example/org/demo.git\<close> resolves to the name \<^verbatim>\<open>demo\<close> under the default
  directory.
\<close>

theorem extractRepoName_last_segment:
  "extractRepoNameFromUrl E w url =
     (if CHR ''/'' \<in> set url \<and> lastSegment url \<noteq> []
      then (if lastSegment url = ''.git'' then ''.git'' else stripDotGit (lastSegment url))
      else ''repo-'' @ showNat (Date_now E w))
   \<and> resolveTarget E w ''https://example/org/demo.git'' None
       = (path_resolve E [defaultDirectory E, ''demo''], ''demo'')
   \<and> resolveTarget E w ''https://example/org/demo.git'' (Some [])
       = (path_resolve E [defaultDirectory E, ''demo''], ''demo'')"
proof -
  have a: "extractRepoNameFromUrl E w url =
     (if CHR ''/'' \<in> set url \<and> lastSegment url \<noteq> []
      then (if lastSegment url = ''.git'' then ''.git'' else stripDotGit (lastSegment url))
      else ''repo-'' @ showNat (Date_now E w))"
    using segmentName_nonempty[of "lastSegment url"]
    by (simp add: extractRepoNameFromUrl_def urlMatch_char fallbackName_def segmentName_def)
  have demo: "extractRepoNameFromUrl E w ''https://example/org/demo.git'' = ''demo''"
    by (simp add: extractRepoNameFromUrl_def tailMatches_def)
  have b: "resolveTarget E w ''https://example/org/demo.git'' None
       = (path_resolve E [defaultDirectory E, ''demo''], ''demo'')"
    by (simp add: resolveTarget_def given_def demo Let_def)
  have c: "resolveTarget E w ''https://example/org/demo.git'' (Some [])
       = (path_resolve E [defaultDirectory E, ''demo''], ''demo'')"
    by (simp add: resolveTarget_def given_def demo Let_def)
  from a b c show ?thesis by blast
qed

theorem extractRepoName_last_segment_witness:
  "extractRepoNameFromUrl xenv xw0 ''git@github.com:winccoa/demo.git'' = ''demo''
   \<and> extractRepoNameFromUrl xenv xw0 ''https://example/org/demo/'' = ''repo-1754000000000''
   \<and> resolveTarget xenv xw0 ''https://example/org/demo.git'' None = (''/work/demo'', ''demo'')"
proof -
  have r: "path_resolve xenv [defaultDirectory xenv, ''demo''] = ''/work/demo''"
    by (simp add: xenv_def posix_resolve_def posix_isAbsolute_def normalizeString_def)
  have s1: "lastSegment ''git@github.com:winccoa/demo.git'' = ''demo.git''"
    by (simp add: lastSegment_def)
  have s2: "lastSegment ''https://example/org/demo/'' = []"
    by (simp add: lastSegment_def)
  have "suffix ''.git'' ''demo.git''"
    by (rule suffixI[of _ "''demo''"]) simp
  then have s3: "stripDotGit ''demo.git'' = ''demo''"
    by (simp add: stripDotGit_def)
  have n: "showNat (Date_now xenv xw0) = ''1754000000000''"
    by (simp add: xenv_def xw0_def showNat.simps)
  show ?thesis
    using extractRepoName_last_segment[of xenv xw0 "''git@github.com:winccoa/demo.git''"]
          extractRepoName_last_segment[of xenv xw0 "''https://example/org/demo/''"]
    by (simp add: s1 s2 s3 n r)
qed


subsection \<open>C7: paging through an organization's repositories\<close>










subsection \<open>C8: the addon manifest\<close>

text \<open>
  C8. The manifest \<^verbatim>\<open>package.winccoa.json\<close> under the repository path: absent, the
  content is \<^verbatim>\<open>null\<close>; present, readable and parsed, it is the parsed value
  serialized again with indent 2; present but unparseable (or unreadable), it is
  \<^verbatim>\<open>null\<close>. The probe has no failing outcome: once the pull has succeeded, the
  operation returns the path and whatever the probe gave, also for a malformed manifest.
\<close>

theorem manifest_probe:
  assumes "p = path_join E [repositoryPath, ''package.winccoa.json'']"
  shows "(\<not> fs_existsSync E w p \<longrightarrow> readWinCCOAPackageJson E w repositoryPath = None)
       \<and> (\<forall>content v. fs_existsSync E w p \<and> fs_readFileSync E w p = Inr content
             \<and> JSON_parse E content = Inr v
            \<longrightarrow> readWinCCOAPackageJson E w repositoryPath = Some (JSON_stringify E v 2))
       \<and> (\<forall>content e. fs_existsSync E w p \<and> fs_readFileSync E w p = Inr content
             \<and> JSON_parse E content = Inl e
            \<longrightarrow> readWinCCOAPackageJson E w repositoryPath = None)
       \<and> (\<forall>e. fs_existsSync E w p \<and> fs_readFileSync E w p = Inl e
            \<longrightarrow> readWinCCOAPackageJson E w repositoryPath = None)
       \<and> (\<forall>pullResult w1. git_pull E repositoryPath w = (Inr pullResult, w1)
            \<longrightarrow> fst (snd (pullLatest E repositoryPath w))
                  = Inr (repositoryPath, readWinCCOAPackageJson E w1 repositoryPath))
       \<and> (\<forall>fullPath repoName pullResult w1.
             resolveTarget E w url targetDirectory = (fullPath, repoName)
             \<and> fs_existsSync E w fullPath \<and> git_pull E fullPath w = (Inr pullResult, w1)
            \<longrightarrow> fst (snd (cloneRepository E url targetDirectory branch w))
                  = Inr (fullPath, readWinCCOAPackageJson E w1 fullPath))"
  using assms
  by (auto simp: readWinCCOAPackageJson_def Let_def pullLatest_def cloneRepository_existing)

theorem manifest_probe_witness:
  "readWinCCOAPackageJson xenv xw0 ''/existing/addon'' = None
   \<and> fs_existsSync xenv xw0 ''/existing/addon/package.winccoa.json''
   \<and> fs_readFileSync xenv xw0 ''/existing/addon/package.winccoa.json'' = Inr ''{ not json''
   \<and> JSON_parse xenv ''{ not json'' = Inl (newError ''Unexpected token'')
   \<and> fst (snd (cloneRepository xenv ''https://example/org/demo.git'' (Some ''/existing/addon'') None xw0))
       = Inr (''/existing/addon'', None)"
proof -
  have e: "fs_existsSync xenv xw0 ''/existing/addon/package.winccoa.json''"
    "fs_existsSync xenv xw0 ''/existing/addon''"
    by (simp_all add: xenv_def xw0_def)
  have r: "fs_readFileSync xenv xw0 ''/existing/addon/package.winccoa.json'' = Inr ''{ not json''"
    by (simp add: xenv_def xw0_def)
  have j: "JSON_parse xenv ''{ not json'' = Inl (newError ''Unexpected token'')"
    by (simp add: xenv_def)
  note probe = manifest_probe[where E = xenv and w = xw0 and repositoryPath = "''/existing/addon''"
      and url = "''https://example/org/demo.git''" and targetDirectory = "Some ''/existing/addon''"
      and branch = None, OF xmanifest_path[symmetric]]
  have none: "readWinCCOAPackageJson xenv xw0 ''/existing/addon'' = None"
    using probe e r j by blast
  have "fst (snd (cloneRepository xenv ''https://example/org/demo.git'' (Some ''/existing/addon'') None xw0))
       = Inr (''/existing/addon'', readWinCCOAPackageJson xenv xw0 ''/existing/addon'')"
    using probe xresolve_addon e(2) xpull by blast
  with none e r j show ?thesis by simp
qed


subsection \<open>C9: CommandExecutor.execute\<close>

text \<open>
  C9 as stated fails for the empty command: \<^verbatim>\<open>exec\<close> refuses it by throwing before
  it starts anything, the throw leaves the executor of the promise, and the promise
  rejects with that error. No \<^verbatim>\<open>CommandResult\<close> is made.
\<close>

theorem execute_rejects_when_exec_throws:
  "fst (child_exec xenv [] None xw0) = Inl (newError ''The argument file cannot be empty'')
   \<and> execute xenv [] None xw0
       = ([Exec [] None], Inl (newError ''The argument file cannot be empty''), xw0)"
  by (simp add: execute_def xenv_def)

text \<open>
  C9, amended. \<^verbatim>\<open>execute\<close> makes one \<^verbatim>\<open>exec\<close> call. When \<^verbatim>\<open>exec\<close> throws, the
  promise rejects with that error; it resolves exactly when \<^verbatim>\<open>exec\<close> calls back, with
  a result built from the arguments of that call. The result carries the command, the
  working directory (or the fixed text when none is given) and the two outputs. Without
  an error object the exit code is 0 and the message empty. With an error object the
  message is the error's message and the exit code is the error's \<^verbatim>\<open>code\<close> as it is (a
  number, a string or \<^verbatim>\<open>null\<close>), or 0 when the error has no \<^verbatim>\<open>code\<close>; so a process
  that ended with a non-zero exit code gives that non-zero exit code.
\<close>

theorem execute_settles_as_exec_does:
  "(\<forall>x w'. child_exec E cmd cwd w = (Inl x, w') \<longrightarrow>
        execute E cmd cwd w = ([Exec cmd cwd], Inl x, w'))
   \<and> (\<forall>err out serr w'. child_exec E cmd cwd w = (Inr (err, out, serr), w') \<longrightarrow>
        (\<exists>result. execute E cmd cwd w = ([Exec cmd cwd], Inr result, w')
           \<and> command result = cmd
           \<and> workingDirectory result
               = (case cwd of None \<Rightarrow> ''Not specified (using current directory)'' | Some d \<Rightarrow> d)
           \<and> stdout result = out
           \<and> stderr result = serr
           \<and> (err = None \<longrightarrow> exitCode result = JNum 0 \<and> message result = [])
           \<and> (\<forall>e. err = Some e \<longrightarrow>
                  message result = err_message e
                \<and> exitCode result = (if err_code e = JUndefined then JNum 0 else err_code e)
                \<and> (\<forall>c. err_code e = JNum c \<and> c \<noteq> 0 \<longrightarrow> exitCode result \<noteq> JNum 0))))
   \<and> ((\<exists>result. fst (snd (execute E cmd cwd w)) = Inr result)
        = (\<exists>cb. fst (child_exec E cmd cwd w) = Inr cb))"
proof -
  have a: "\<forall>x w'. child_exec E cmd cwd w = (Inl x, w') \<longrightarrow>
        execute E cmd cwd w = ([Exec cmd cwd], Inl x, w')"
    by (simp add: execute_def)
  have b: "\<forall>err out serr w'. child_exec E cmd cwd w = (Inr (err, out, serr), w') \<longrightarrow>
        (\<exists>result. execute E cmd cwd w = ([Exec cmd cwd], Inr result, w')
           \<and> command result = cmd
           \<and> workingDirectory result
               = (case cwd of None \<Rightarrow> ''Not specified (using current directory)'' | Some d \<Rightarrow> d)
           \<and> stdout result = out
           \<and> stderr result = serr
           \<and> (err = None \<longrightarrow> exitCode result = JNum 0 \<and> message result = [])
           \<and> (\<forall>e. err = Some e \<longrightarrow>
                  message result = err_message e
                \<and> exitCode result = (if err_code e = JUndefined then JNum 0 else err_code e)
                \<and> (\<forall>c. err_code e = JNum c \<and> c \<noteq> 0 \<longrightarrow> exitCode result \<noteq> JNum 0)))"
    by (auto simp: execute_def execCallback_def)
  have c: "(\<exists>result. fst (snd (execute E cmd cwd w)) = Inr result)
        = (\<exists>cb. fst (child_exec E cmd cwd w) = Inr cb)"
    by (auto simp: execute_def split: prod.splits sum.splits)
  from a b c show ?thesis by blast
qed

theorem execute_settles_as_exec_does_witness:
  "(\<exists>result. execute xenv ''npm install'' (Some ''/bad/javascript/a'') xw0
               = ([Exec ''npm install'' (Some ''/bad/javascript/a'')], Inr result, xw0)
          \<and> exitCode result = JNum 1 \<and> message result = ''Command failed''
          \<and> stderr result = ''npm ERR!'')
   \<and> (\<exists>result. execute xenv ''npm install'' (Some ''/gone'') xw0
               = ([Exec ''npm install'' (Some ''/gone'')], Inr result, xw0)
          \<and> exitCode result = JStr ''ENOENT'' \<and> message result = ''spawn /bin/sh ENOENT'')
   \<and> (\<exists>result. execute xenv ''npm install'' None xw0 = ([Exec ''npm install'' None], Inr result, xw0)
          \<and> exitCode result = JNum 0 \<and> message result = [] \<and> stdout result = ''ok''
          \<and> workingDirectory result = ''Not specified (using current directory)'')
   \<and> execute xenv [] (Some ''/work'') xw0
       = ([Exec [] (Some ''/work'')], Inl (newError ''The argument file cannot be empty''), xw0)"
proof -
  have bad: "child_exec xenv ''npm install'' (Some ''/bad/javascript/a'') xw0
                = (Inr (Some \<lparr> err_code = JNum 1, err_message = ''Command failed'' \<rparr>, [], ''npm ERR!''), xw0)"
    by (simp add: xenv_def)
  have gone: "child_exec xenv ''npm install'' (Some ''/gone'') xw0
                = (Inr (Some \<lparr> err_code = JStr ''ENOENT'', err_message = ''spawn /bin/sh ENOENT'' \<rparr>, [], []), xw0)"
    by (simp add: xenv_def)
  have fine: "child_exec xenv ''npm install'' None xw0 = (Inr (None, ''ok'', []), xw0)"
    by (simp add: xenv_def)
  have empty: "child_exec xenv [] (Some ''/work'') xw0
                = (Inl (newError ''The argument file cannot be empty''), xw0)"
    by (simp add: xenv_def)
  have 1: "\<exists>result. execute xenv ''npm install'' (Some ''/bad/javascript/a'') xw0
               = ([Exec ''npm install'' (Some ''/bad/javascript/a'')], Inr result, xw0)
          \<and> exitCode result = JNum 1 \<and> message result = ''Command failed''
          \<and> stderr result = ''npm ERR!''"
    using execute_settles_as_exec_does[where E = xenv and cmd = "''npm install''"
        and cwd = "Some ''/bad/javascript/a''" and w = xw0] bad
    by auto
  have 2: "\<exists>result. execute xenv ''npm install'' (Some ''/gone'') xw0
               = ([Exec ''npm install'' (Some ''/gone'')], Inr result, xw0)
          \<and> exitCode result = JStr ''ENOENT'' \<and> message result = ''spawn /bin/sh ENOENT''"
    using execute_settles_as_exec_does[where E = xenv and cmd = "''npm install''"
        and cwd = "Some ''/gone''" and w = xw0] gone
    by auto
  have 3: "\<exists>result. execute xenv ''npm install'' None xw0 = ([Exec ''npm install'' None], Inr result, xw0)
          \<and> exitCode result = JNum 0 \<and> message result = [] \<and> stdout result = ''ok''
          \<and> workingDirectory result = ''Not specified (using current directory)''"
    using execute_settles_as_exec_does[where E = xenv and cmd = "''npm install''"
        and cwd = None and w = xw0] fine
    by auto
  have 4: "execute xenv [] (Some ''/work'') xw0
       = ([Exec [] (Some ''/work'')], Inl (newError ''The argument file cannot be empty''), xw0)"
    using execute_settles_as_exec_does[where E = xenv and cmd = "[]"
        and cwd = "Some ''/work''" and w = xw0] empty
    by blast
  from 1 2 3 4 show ?thesis by blast
qed


subsection \<open>C10: project path and installation path\<close>

lemma first_entry: "\<not> length ps < 2 \<Longrightarrow> ps ! 0 = hd ps"
  by (cases ps) auto

lemma last_entry: "\<not> length ps < 2 \<Longrightarrow> ps ! (length ps - Suc 0) = last ps"
  by (cases ps) (auto simp: last_conv_nth)

text \<open>
  C10 does not hold of the code. With a manager whose \<^verbatim>\<open>getPaths()\<close> throws, both
  functions throw that error instead of returning the empty string; with an array whose
  entries are not strings, \<^verbatim>\<open>path.normalize\<close> throws and so do they. The comment of
  both functions promises the empty string whenever the path cannot be resolved, and
  the two other functions of the class, \<^verbatim>\<open>getComponentPath\<close> and \<^verbatim>\<open>getFilePath\<close>,
  make the same calls inside \<^verbatim>\<open>try\<close> and return the empty string from the
  \<^verbatim>\<open>catch\<close>; these two have no \<^verbatim>\<open>try\<close>.

  Where nothing throws, the functions do what C10 says: the empty string for a missing
  manager, for a value that is not an array and for an array of fewer than two entries,
  and the normalized first and last entry otherwise. The last four lines are the
  functions on the manager that throws, and on a manager that answers.
\<close>

theorem getProjectPath_lets_throw_escape:
  "getProjectPath E None = Inr []
   \<and> getInstallationPath E None = Inr []
   \<and> getProjectPath E (Some m) =
       (case getPaths m of
          Inl x \<Rightarrow> Inl x
        | Inr (JArr ps) \<Rightarrow> if length ps < 2 then Inr [] else normalizeArg E (hd ps)
        | Inr _ \<Rightarrow> Inr [])
   \<and> getInstallationPath E (Some m) =
       (case getPaths m of
          Inl x \<Rightarrow> Inl x
        | Inr (JArr ps) \<Rightarrow> if length ps < 2 then Inr [] else normalizeArg E (last ps)
        | Inr _ \<Rightarrow> Inr [])
   \<and> normalizeArg E (JStr s) = Inr (path_normalize E s)
   \<and> normalizeArg E (JNum n) = Inl (newError ''The path argument must be of type string'')
   \<and> getProjectPath xenv (Some xwinccoaDown) = Inl (newError ''manager is not connected'')
   \<and> getInstallationPath xenv (Some xwinccoaDown) = Inl (newError ''manager is not connected'')
   \<and> getProjectPath xenv (Some \<lparr> getPaths = Inr (JArr [JNum 1, JNum 2]) \<rparr>)
       = Inl (newError ''The path argument must be of type string'')
   \<and> getProjectPath xenv (Some xwinccoa) = Inr ''/opt/proj/demo/''
   \<and> getInstallationPath xenv (Some xwinccoa) = Inr ''/opt/WinCC_OA/3.21''"
proof -
  have a: "getProjectPath E None = Inr []" "getInstallationPath E None = Inr []"
    by (simp_all add: getProjectPath_def getInstallationPath_def)
  have b: "getProjectPath E (Some m) =
       (case getPaths m of
          Inl x \<Rightarrow> Inl x
        | Inr (JArr ps) \<Rightarrow> if length ps < 2 then Inr [] else normalizeArg E (hd ps)
        | Inr _ \<Rightarrow> Inr [])"
    by (simp add: getProjectPath_def first_entry split: sum.splits js_value.splits)
  have c: "getInstallationPath E (Some m) =
       (case getPaths m of
          Inl x \<Rightarrow> Inl x
        | Inr (JArr ps) \<Rightarrow> if length ps < 2 then Inr [] else normalizeArg E (last ps)
        | Inr _ \<Rightarrow> Inr [])"
    by (simp add: getInstallationPath_def last_entry split: sum.splits js_value.splits)
  have d: "normalizeArg E (JStr s) = Inr (path_normalize E s)"
    "normalizeArg E (JNum n) = Inl (newError ''The path argument must be of type string'')"
    by (simp_all add: normalizeArg_def)
  have e: "getProjectPath xenv (Some xwinccoaDown) = Inl (newError ''manager is not connected'')"
    "getInstallationPath xenv (Some xwinccoaDown) = Inl (newError ''manager is not connected'')"
    by (simp_all add: getProjectPath_def getInstallationPath_def xwinccoaDown_def)
  have f: "getProjectPath xenv (Some \<lparr> getPaths = Inr (JArr [JNum 1, JNum 2]) \<rparr>)
       = Inl (newError ''The path argument must be of type string'')"
    by (simp add: getProjectPath_def normalizeArg_def)
  have g: "getProjectPath xenv (Some xwinccoa) = Inr ''/opt/proj/demo/''"
    by (simp add: getProjectPath_def normalizeArg_def xwinccoa_def xenv_def posix_normalize_def
        posix_isAbsolute_def normalizeString_def)
  have h: "getInstallationPath xenv (Some xwinccoa) = Inr ''/opt/WinCC_OA/3.21''"
    by (simp add: getInstallationPath_def normalizeArg_def xwinccoa_def xenv_def posix_normalize_def
        posix_isAbsolute_def normalizeString_def)
  from a b c d e f g h show ?thesis by blast
qed

end
